theory Spec2Isabelle
  imports Main "HOL-Library.Word"
begin

unbundle bit_operations_syntax

section \<open>JavaScript values used by the content pipeline\<close>

text \<open>
  Exceptions of the JavaScript runtime are values: a function that can throw
  returns \<open>js_error + 'a\<close>, with \<open>Inl\<close> for the exception.
\<close>

datatype js_error = TypeError | ReferenceError | SyntaxError | FsError | UnhandledErrorEvent

text \<open>
  Strings are lists of characters; an index result is an \<open>int\<close>, because
  \<open>indexOf\<close> and \<open>lastIndexOf\<close> answer \<open>-1\<close> when nothing is found.
\<close>

fun indexOf_aux :: "string \<Rightarrow> char \<Rightarrow> int \<Rightarrow> int" where
  "indexOf_aux [] c i = -1"
| "indexOf_aux (x # xs) c i = (if x = c then i else indexOf_aux xs c (i + 1))"

definition indexOf :: "string \<Rightarrow> char \<Rightarrow> int \<Rightarrow> int" where
  \<comment> \<open>\<open>s.indexOf(c, from)\<close>: a negative \<open>from\<close> counts as 0.\<close>
  "indexOf s c from =
     (let k = nat (max 0 from) in
      if k \<ge> length s then -1 else indexOf_aux (drop k s) c (int k))"

fun lastIndexOf_aux :: "string \<Rightarrow> char \<Rightarrow> int \<Rightarrow> int \<Rightarrow> int" where
  "lastIndexOf_aux [] c i found = found"
| "lastIndexOf_aux (x # xs) c i found =
     lastIndexOf_aux xs c (i + 1) (if x = c then i else found)"

definition lastIndexOf :: "string \<Rightarrow> char \<Rightarrow> int" where
  "lastIndexOf s c = lastIndexOf_aux s c 0 (-1)"

definition substring :: "string \<Rightarrow> int \<Rightarrow> int \<Rightarrow> string" where
  \<comment> \<open>\<open>s.substring(a, b)\<close>: both ends are clamped to \<open>[0, length]\<close> and swapped
      when \<open>a > b\<close>.\<close>
  "substring s a b =
     (let n = int (length s);
          a' = max 0 (min a n);
          b' = max 0 (min b n);
          lo = min a' b';
          hi = max a' b'
      in take (nat (hi - lo)) (drop (nat lo) s))"

definition substringFrom :: "string \<Rightarrow> int \<Rightarrow> string" where
  \<comment> \<open>\<open>s.substring(a)\<close>, to the end of the string.\<close>
  "substringFrom s a = substring s a (int (length s))"

fun split_aux :: "char \<Rightarrow> string \<Rightarrow> string \<Rightarrow> string list" where
  "split_aux c acc [] = [rev acc]"
| "split_aux c acc (x # xs) =
     (if x = c then rev acc # split_aux c [] xs else split_aux c (x # acc) xs)"

definition split :: "string \<Rightarrow> char \<Rightarrow> string list" where
  \<comment> \<open>\<open>s.split(c)\<close>; the empty string splits into one empty piece.\<close>
  "split s c = split_aux c [] s"

text \<open>
  Node's \<open>path\<close> module on POSIX, for normalised paths without \<open>.\<close> and \<open>..\<close>
  segments; \<open>Path_relative\<close> is taken for a path that lies under the root
  (the pipeline only relates files to the directory that contains them).
\<close>

definition Path_sep :: char where
  "Path_sep = CHR ''/''"

definition Path_join :: "string \<Rightarrow> string \<Rightarrow> string" where
  "Path_join a b = (if a = [] then b else if b = [] then a else a @ [Path_sep] @ b)"

definition Path_relative :: "string \<Rightarrow> string \<Rightarrow> string" where
  "Path_relative root p =
     (if root = [] then p
      else if take (length root + 1) p = root @ [Path_sep]
           then drop (length root + 1) p
      else if p = root then [] else p)"

section \<open>The resource-path parser\<close>

record resource_parts =
  parts_resourceName :: string
  parts_resourceType :: string
  parts_properties :: "string list"

definition parseResourcePath :: "string \<Rightarrow> string \<Rightarrow> resource_parts" where
  "parseResourcePath root path =
     (let pn = Path_relative root path;
          ls = lastIndexOf pn Path_sep;
          fp = indexOf pn (CHR ''.'') (ls + 1);
          lp = lastIndexOf pn (CHR ''.'');
          rn = substring pn 0 fp;
          rt = substringFrom pn (lp + 1);
          ps = (if fp = lp then [] else substring pn (fp + 1) lp)
      in \<lparr> parts_resourceName = rn,
           parts_resourceType = rt,
           parts_properties = split ps (CHR ''.'') \<rparr>)"

section \<open>Source and target databases\<close>

record source_entry =
  relativePath :: string
  resourceName :: string
  resourceType :: string
  platform :: string
  properties :: "string list"
  references :: "string list"
  dependencies :: "string list"
  writeTime :: int
  fileSize :: int

record target_entry =
  te_relativePath :: string
  te_sourcePath :: string
  te_platform :: string
  te_compilerName :: string
  te_outputs :: "string list"

text \<open>
  \<open>entries\<close> is a JavaScript array: a position can be a hole (\<open>None\<close>), an
  assignment past the end extends the array with holes, and a read out of range
  answers \<open>undefined\<close>. \<open>entryTable\<close> is the side index from primary key to
  position.
\<close>

record 'e database =
  resourceRoot :: string
  bundleName :: string
  entries :: "'e option list"
  entryTable :: "string \<rightharpoonup> nat"
  dirty :: bool

record 'e target_database = "'e database" +
  db_platform :: string

definition array_get :: "'a option list \<Rightarrow> nat \<Rightarrow> 'a option" where
  "array_get xs i = (if i < length xs then xs ! i else None)"

definition array_set :: "'a option list \<Rightarrow> nat \<Rightarrow> 'a \<Rightarrow> 'a option list" where
  "array_set xs i v =
     (if i < length xs then xs[i := Some v]
      else xs @ replicate (i - length xs) None @ [Some v])"

definition array_splice1 :: "'a list \<Rightarrow> nat \<Rightarrow> 'a list" where
  \<comment> \<open>\<open>xs.splice(i, 1)\<close>\<close>
  "array_splice1 xs i = take i xs @ drop (Suc i) xs"

definition SourceDatabase_new :: "source_entry database" where
  "SourceDatabase_new =
     \<lparr> resourceRoot = [], bundleName = [], entries = [], entryTable = Map.empty,
       dirty = False \<rparr>"

definition TargetDatabase_new :: "target_entry target_database" where
  "TargetDatabase_new =
     \<lparr> resourceRoot = [], bundleName = [], entries = [], entryTable = Map.empty,
       dirty = False, db_platform = [] \<rparr>"

text \<open>
  The two database types carry the same code for \<open>load\<close>, \<open>query\<close>, \<open>insert\<close>
  and \<open>remove\<close>; it is written once here, over the key of the entry type.
\<close>

fun index_entries :: "('e \<Rightarrow> string) \<Rightarrow> nat \<Rightarrow> 'e option list \<Rightarrow> (string \<rightharpoonup> nat)
    \<Rightarrow> js_error + (string \<rightharpoonup> nat)" where
  "index_entries keyOf i [] tbl = Inr tbl"
| "index_entries keyOf i (None # es) tbl = Inl TypeError"
| "index_entries keyOf i (Some en # es) tbl =
     index_entries keyOf (Suc i) es (tbl(keyOf en \<mapsto> i))"

definition db_load :: "('e \<Rightarrow> string) \<Rightarrow> string \<Rightarrow> 'e option list \<Rightarrow>
    ('e, 'm) database_scheme \<Rightarrow> js_error + ('e, 'm) database_scheme" where
  \<comment> \<open>the state is replaced before the index loop runs; a \<open>null\<close> entry makes the
      loop throw\<close>
  "db_load keyOf name es db =
     (case index_entries keyOf 0 es Map.empty of
        Inl err \<Rightarrow> Inl err
      | Inr tbl \<Rightarrow>
          Inr (db\<lparr> bundleName := name, entries := es, entryTable := tbl, dirty := False \<rparr>))"

definition db_query :: "('e, 'm) database_scheme \<Rightarrow> string \<Rightarrow> 'e option" where
  "db_query db relPath =
     (case entryTable db relPath of
        None \<Rightarrow> None
      | Some index \<Rightarrow> array_get (entries db) index)"

definition db_insert :: "('e \<Rightarrow> string) \<Rightarrow> 'e \<Rightarrow> ('e, 'm) database_scheme \<Rightarrow>
    ('e, 'm) database_scheme" where
  "db_insert keyOf entry db =
     (let key = keyOf entry;
          index = (case entryTable db key of
                     None \<Rightarrow> length (entries db)
                   | Some existing \<Rightarrow> existing)
      in db\<lparr> entries := array_set (entries db) index entry,
              entryTable := (entryTable db)(key \<mapsto> index),
              dirty := True \<rparr>)"

definition db_remove :: "string \<Rightarrow> ('e, 'm) database_scheme \<Rightarrow> ('e, 'm) database_scheme" where
  "db_remove relPath db =
     (case entryTable db relPath of
        None \<Rightarrow> db
      | Some index \<Rightarrow>
          db\<lparr> entryTable := (entryTable db)(relPath := None),
               entries := array_splice1 (entries db) index,
               dirty := True \<rparr>)"

definition SourceDatabase_query :: "source_entry database \<Rightarrow> string \<Rightarrow> string \<Rightarrow>
    source_entry option" where
  "SourceDatabase_query db rootPath sourcePath = db_query db (Path_relative rootPath sourcePath)"

definition SourceDatabase_insert :: "source_entry \<Rightarrow> source_entry database \<Rightarrow>
    source_entry database" where
  "SourceDatabase_insert entry db = db_insert relativePath entry db"

definition SourceDatabase_remove :: "string \<Rightarrow> string \<Rightarrow> source_entry database \<Rightarrow>
    source_entry database" where
  "SourceDatabase_remove rootPath sourcePath db = db_remove (Path_relative rootPath sourcePath) db"

definition TargetDatabase_query :: "target_entry target_database \<Rightarrow> string \<Rightarrow> string \<Rightarrow>
    target_entry option" where
  "TargetDatabase_query db rootPath targetPath = db_query db (Path_relative rootPath targetPath)"

definition TargetDatabase_insert :: "target_entry \<Rightarrow> target_entry target_database \<Rightarrow>
    target_entry target_database" where
  "TargetDatabase_insert entry db = db_insert te_relativePath entry db"

definition TargetDatabase_remove :: "string \<Rightarrow> string \<Rightarrow> target_entry target_database \<Rightarrow>
    target_entry target_database" where
  "TargetDatabase_remove rootPath targetPath db = db_remove (Path_relative rootPath targetPath) db"

definition push_unique :: "string list \<Rightarrow> string \<Rightarrow> string list" where
  \<comment> \<open>\<open>if (xs.indexOf(x) < 0) xs.push(x)\<close>\<close>
  "push_unique xs x = (if x \<in> set xs then xs else xs @ [x])"

definition addReference :: "source_entry \<Rightarrow> string \<Rightarrow> string \<Rightarrow> source_entry" where
  "addReference entry rootPath sourcePath =
     entry\<lparr> references := push_unique (references entry) (Path_relative rootPath sourcePath) \<rparr>"

definition addDependency :: "source_entry \<Rightarrow> string \<Rightarrow> string \<Rightarrow> source_entry" where
  "addDependency entry rootPath sourcePath =
     entry\<lparr> dependencies := push_unique (dependencies entry) (Path_relative rootPath sourcePath) \<rparr>"

definition addOutput :: "target_entry \<Rightarrow> string \<Rightarrow> string \<Rightarrow> target_entry" where
  "addOutput entry rootPath outputPath =
     entry\<lparr> te_outputs := push_unique (te_outputs entry) (Path_relative rootPath outputPath) \<rparr>"

definition TargetDatabase_create :: "target_entry target_database \<Rightarrow> string \<Rightarrow> string \<Rightarrow>
    string \<Rightarrow> string \<Rightarrow> target_entry" where
  "TargetDatabase_create db rootPath sourcePath targetPath compilerName =
     \<lparr> te_relativePath = Path_relative rootPath targetPath,
       te_sourcePath = Path_relative rootPath sourcePath,
       te_platform = db_platform db,
       te_compilerName = compilerName,
       te_outputs = [] \<rparr>"

text \<open>
  The primary-key invariant of a database, as the specification states it: no
  holes, no key twice, and the index and the list in one-to-one correspondence.
\<close>

definition keys_of :: "('e \<Rightarrow> string) \<Rightarrow> 'e option list \<Rightarrow> string list" where
  "keys_of keyOf es = map keyOf (List.map_filter id es)"

definition db_consistent :: "('e \<Rightarrow> string) \<Rightarrow> ('e, 'm) database_scheme \<Rightarrow> bool" where
  "db_consistent keyOf db \<longleftrightarrow>
     list_all (\<lambda>e. e \<noteq> None) (entries db) \<and>
     distinct (keys_of keyOf (entries db)) \<and>
     list_all (\<lambda>i. case entries db ! i of
                      None \<Rightarrow> False
                    | Some e \<Rightarrow> entryTable db (keyOf e) = Some i)
              [0..<length (entries db)] \<and>
     dom (entryTable db) = set (keys_of keyOf (entries db))"

section \<open>Target: the stable file stem of a resource\<close>

text \<open>
  \<open>Target.prototype.targetPathFor\<close>. The operators \<open><<\<close> and \<open>>>\<close> convert
  their left operand to a signed 32-bit integer and answer one; \<open>+\<close> adds
  JavaScript numbers, which are exact on the integers that occur here, so the
  sum is not reduced to 32 bits.
\<close>

definition ToInt32 :: "int \<Rightarrow> 32 word" where
  "ToInt32 n = word_of_int n"

definition shl32 :: "int \<Rightarrow> nat \<Rightarrow> int" where
  "shl32 h k = sint (push_bit k (ToInt32 h))"

definition sar32 :: "int \<Rightarrow> nat \<Rightarrow> int" where
  "sar32 h k = sint (signed_drop_bit k (ToInt32 h))"

definition charCode :: "char \<Rightarrow> int" where
  "charCode c = of_char c"

definition hash_step :: "int \<Rightarrow> char \<Rightarrow> int" where
  "hash_step hash c = shl32 hash 7 + sar32 hash 25 + charCode c"

definition stb_hash :: "string \<Rightarrow> int" where
  "stb_hash name = foldl hash_step 0 name"

definition hexDigit :: "nat \<Rightarrow> char" where
  "hexDigit d = (''0123456789abcdef'') ! d"

function hexNat :: "nat \<Rightarrow> string" where
  "hexNat n = (if n < 16 then [hexDigit n] else hexNat (n div 16) @ [hexDigit (n mod 16)])"
  by pat_completeness auto
termination
  by (relation "measure (\<lambda>n. n)") auto

definition toString16 :: "int \<Rightarrow> string" where
  \<comment> \<open>\<open>n.toString(16)\<close> on an integer: a minus sign, then the magnitude.\<close>
  "toString16 n = (if n < 0 then CHR ''-'' # hexNat (nat (- n)) else hexNat (nat n))"

definition targetPathFor :: "string \<Rightarrow> string \<Rightarrow> string" where
  "targetPathFor targetPath name =
     Path_join targetPath (toString16 (stb_hash name))"



section \<open>The process supervisor\<close>

record build_request =
  req_sourcePath :: string
  req_targetPath :: string
  req_platform :: string

record build_result =
  res_sourcePath :: string
  res_targetPath :: string
  res_platform :: string
  res_success :: bool
  res_errors :: "string list"
  res_outputs :: "string list"
  res_references :: "string list"

datatype ipc_message =
    VERSION_QUERY
  | VERSION_DATA "int option"
  | BUILD_REQUEST build_request
  | BUILD_RESULT build_result

text \<open>
  The child process as the supervisor sees it: its pid, whether the IPC channel
  is connected, the signals sent to it and the messages sent to it.
\<close>

record child_process =
  child_pid :: int
  child_connected :: bool
  child_signals :: "string list"
  child_inbox :: "ipc_message list"

record monitor_config =
  cfg_path :: string
  cfg_workingDirectory :: string
  cfg_arguments :: "string list"
  cfg_hideEnvironment :: "string list"
  cfg_extraEnvironment :: "(string \<times> string) list"
  cfg_maxRestartCount :: "int option"
  cfg_suppressStdio :: "bool option"

record monitor =
  scriptPath :: string
  workingDirectory :: string
  scriptArguments :: "string list"
  extraEnvironment :: "(string \<times> string) list"
  hiddenEnvironment :: "string list"
  maxRestartCount :: int
  suppressStdio :: bool
  scriptEnvironment :: "(string \<times> string) list"
  isRunning :: bool
  forceExit :: bool
  canSendIPC :: bool
  childPid :: int
  childProcess :: "child_process option"
  lastStartTime :: int
  startCount :: "int option"

datatype monitor_event = EvStart | EvRestart | EvMessage ipc_message | EvError | EvStop | EvExit

definition defaultValue :: "'a option \<Rightarrow> 'a \<Rightarrow> 'a" where
  "defaultValue v theDefault = (case v of None \<Rightarrow> theDefault | Some x \<Rightarrow> x)"

definition obj_set :: "(string \<times> 'a) list \<Rightarrow> string \<Rightarrow> 'a \<Rightarrow> (string \<times> 'a) list" where
  \<comment> \<open>\<open>obj[k] = v\<close> on an object whose keys keep their insertion order\<close>
  "obj_set obj k v =
     (if k \<in> set (map fst obj) then map (\<lambda>(k', v'). if k' = k then (k', v) else (k', v')) obj
      else obj @ [(k, v)])"

definition makeEnvironment :: "(string \<times> string) list \<Rightarrow> (string \<times> string) list \<Rightarrow>
    string list \<Rightarrow> (string \<times> string) list" where
  "makeEnvironment processEnv xtraEnv hideEnv =
     foldl (\<lambda>merged (k, v). obj_set merged k v)
       (filter (\<lambda>(k, v). k \<notin> set hideEnv) processEnv) xtraEnv"

definition Monitor_new :: "string \<Rightarrow> (string \<times> string) list \<Rightarrow> int \<Rightarrow> monitor_config \<Rightarrow> monitor" where
  \<comment> \<open>the constructor, given \<open>process.cwd()\<close>, \<open>process.env\<close> and \<open>Date.now()\<close>;
      it leaves \<open>startCount\<close> undefined\<close>
  "Monitor_new cwd processEnv now config =
     \<lparr> scriptPath = cfg_path config,
       workingDirectory =
         (if cfg_workingDirectory config = [] then cwd else cfg_workingDirectory config),
       scriptArguments = cfg_arguments config,
       extraEnvironment = cfg_extraEnvironment config,
       hiddenEnvironment = cfg_hideEnvironment config,
       maxRestartCount = defaultValue (cfg_maxRestartCount config) 0,
       suppressStdio = defaultValue (cfg_suppressStdio config) False,
       scriptEnvironment =
         makeEnvironment processEnv (cfg_extraEnvironment config) (cfg_hideEnvironment config),
       isRunning = False,
       forceExit = False,
       canSendIPC = False,
       childPid = 0,
       childProcess = None,
       lastStartTime = now,
       startCount = None \<rparr>"

text \<open>
  \<open>Monitor.prototype.start\<close>. \<open>forked\<close> is what \<open>ChildProcess.fork\<close> does: the pid
  of the new child, or \<open>None\<close> when it throws. The result holds the exception
  that leaves \<open>start\<close>, if any, the supervisor as \<open>start\<close> leaves it, the events
  emitted during the call and the events scheduled for the next tick. The
  \<open>catch\<close> block schedules the error event and does not return, so the
  statements for a started child run with \<open>cproc = null\<close>, and reading
  \<open>cproc.pid\<close> throws.
\<close>

record start_result =
  thrown :: "js_error option"
  after :: monitor
  emitted :: "monitor_event list"
  nextTick :: "monitor_event list"

definition Monitor_start :: "bool option \<Rightarrow> int \<Rightarrow> int option \<Rightarrow> monitor \<Rightarrow> start_result" where
  "Monitor_start isRestartArg now forked m =
     (let isRestart = defaultValue isRestartArg False in
      if isRunning m \<or> forceExit m
      then \<lparr> thrown = None, after = m, emitted = [], nextTick = [] \<rparr>
      else
        let m1 = (if \<not> isRestart then m\<lparr> startCount := Some 0 \<rparr> else m) in
        if isRestart \<and> maxRestartCount m1 > 0 \<and>
           (case startCount m1 of None \<Rightarrow> False | Some c \<Rightarrow> c \<ge> maxRestartCount m1)
        then \<lparr> thrown = None, after = m1, emitted = [EvExit], nextTick = [] \<rparr>
        else
          (case forked of
             None \<Rightarrow>
               \<lparr> thrown = Some TypeError,
                 after = m1\<lparr> lastStartTime := now \<rparr>,
                 emitted = [],
                 nextTick = [EvError] \<rparr>
           | Some pid \<Rightarrow>
               \<lparr> thrown = None,
                 after = m1\<lparr> lastStartTime := now,
                            childPid := pid,
                            childProcess := Some \<lparr> child_pid = pid, child_connected = True,
                                                  child_signals = [], child_inbox = [] \<rparr>,
                            isRunning := True,
                            canSendIPC := True,
                            startCount := map_option (\<lambda>c. c + 1) (startCount m1) \<rparr>,
                 emitted = [],
                 nextTick = [if isRestart then EvRestart else EvStart] \<rparr>))"

definition Monitor_kill :: "bool option \<Rightarrow> monitor \<Rightarrow> monitor \<times> monitor_event list" where
  \<comment> \<open>the listeners were registered as bound functions, so the two
      \<open>removeListener\<close> calls, which name the unbound methods, remove nothing\<close>
  "Monitor_kill allowRestartArg m =
     (case childProcess m of
        None \<Rightarrow> (m, [])
      | Some cp \<Rightarrow>
          if \<not> isRunning m then (m, [])
          else
            let allowRestart = defaultValue allowRestartArg True in
            (m\<lparr> forceExit := (if allowRestart then False else True),
                childProcess := Some (cp\<lparr> child_connected := False,
                                          child_signals := child_signals cp @ [''SIGTERM''] \<rparr>),
                canSendIPC := False \<rparr>,
             [EvStop]))"

definition Monitor_send :: "ipc_message \<Rightarrow> monitor \<Rightarrow> js_error + monitor" where
  "Monitor_send message m =
     (if canSendIPC m then
        (case childProcess m of
           None \<Rightarrow> Inl TypeError
         | Some cp \<Rightarrow>
             Inr (m\<lparr> childProcess := Some (cp\<lparr> child_inbox := child_inbox cp @ [message] \<rparr>) \<rparr>))
      else Inr m)"

section \<open>The compiler pool\<close>

record build_input =
  in_sourcePath :: string
  in_targetPath :: string
  in_sourceEntry :: source_entry
  in_resourceName :: string
  in_resourceType :: string
  in_platform :: string

text \<open>
  A job holds a reference to the supervisor that runs it; supervisors live in a
  store and are referred to by their address.
\<close>

record job =
  job_input :: build_input
  job_targetPath :: string
  job_compilerName :: string
  job_dataCompiler :: nat

datatype queue_event = Execute job | Drain

definition JobQueue_front :: "job list \<Rightarrow> job option" where
  "JobQueue_front jobList = (case jobList of [] \<Rightarrow> None | j # _ \<Rightarrow> Some j)"

definition JobQueue_submit :: "job \<Rightarrow> job list \<Rightarrow> job list \<times> queue_event list" where
  "JobQueue_submit j jobList =
     (let pushed = jobList @ [j]
      in (pushed, if length pushed = 1 then [Execute j] else []))"

definition JobQueue_complete :: "job list \<Rightarrow> job list \<times> queue_event list" where
  \<comment> \<open>\<open>shift\<close> on an empty array removes nothing\<close>
  "JobQueue_complete jobList =
     (let shifted = tl jobList
      in (shifted, case shifted of [] \<Rightarrow> [Drain] | j # _ \<Rightarrow> [Execute j]))"

record complete_result =
  cr_input :: build_input
  cr_compilerName :: string
  cr_compilerVersion :: "int option"
  cr_targetPath :: string
  cr_success :: bool
  cr_errors :: "string list"
  cr_outputs :: "string list"
  cr_references :: "string list"

datatype pool_event =
    PoolReady
  | PoolStarted build_input string string
  | PoolComplete complete_result
  | PoolSkipped build_input string string
  | PoolError "string option" string
  | PoolTerminated

text \<open>
  A supervisor as the pool keeps it: the \<open>Monitor\<close> with the fields the pool
  attaches to it. \<open>version\<close> and \<open>workQueue\<close> are undefined until the pool has
  seen the supervisor's \<open>start\<close> event.
\<close>

record supervised =
  sv_monitor :: monitor
  sv_name :: string
  sv_types :: "string list"
  sv_version :: "int option"
  sv_workQueue :: "job list option"

record compiler_cache =
  monitors :: "nat \<rightharpoonup> supervised"
  nextMonitor :: nat
  pathTable :: "string \<rightharpoonup> nat"
  compilers :: "string \<rightharpoonup> nat"
  waitCount :: int
  childProcessCount :: int

definition CompilerCache_new :: compiler_cache where
  "CompilerCache_new =
     \<lparr> monitors = Map.empty, nextMonitor = 0, pathTable = Map.empty, compilers = Map.empty,
       waitCount = 0, childProcessCount = 0 \<rparr>"

text \<open>
  What a pool operation leaves behind: the exception that ended it, if any, the
  pool, and the events the pool emitted, in order (also those emitted before an
  exception).
\<close>

record 's outcome =
  oc_error :: "js_error option"
  oc_state :: 's
  oc_events :: "pool_event list"

definition finished :: "'s \<Rightarrow> pool_event list \<Rightarrow> 's outcome" where
  "finished s evs = \<lparr> oc_error = None, oc_state = s, oc_events = evs \<rparr>"

definition failed :: "js_error \<Rightarrow> 's \<Rightarrow> pool_event list \<Rightarrow> 's outcome" where
  "failed e s evs = \<lparr> oc_error = Some e, oc_state = s, oc_events = evs \<rparr>"

definition and_then :: "'s outcome \<Rightarrow> ('s \<Rightarrow> 's outcome) \<Rightarrow> 's outcome" where
  "and_then r f =
     (case oc_error r of
        Some e \<Rightarrow> r
      | None \<Rightarrow> (let r2 = f (oc_state r) in r2\<lparr> oc_events := oc_events r @ oc_events r2 \<rparr>))"

definition CompilerCache_handleQueueExecute :: "job \<Rightarrow> compiler_cache \<Rightarrow> compiler_cache outcome" where
  "CompilerCache_handleQueueExecute task cache =
     (let started = [PoolStarted (job_input task) (job_targetPath task) (job_compilerName task)]
      in case monitors cache (job_dataCompiler task) of
           None \<Rightarrow> failed TypeError cache started
         | Some sv \<Rightarrow>
             (case Monitor_send
                     (BUILD_REQUEST \<lparr> req_sourcePath = in_sourcePath (job_input task),
                                      req_targetPath = job_targetPath task,
                                      req_platform = in_platform (job_input task) \<rparr>)
                     (sv_monitor sv) of
                Inl e \<Rightarrow> failed e cache started
              | Inr m \<Rightarrow>
                  finished (cache\<lparr> monitors := (monitors cache)
                                 (job_dataCompiler task \<mapsto> sv\<lparr> sv_monitor := m \<rparr>) \<rparr>)
                       started))"

fun dispatch_queue_events :: "queue_event list \<Rightarrow> compiler_cache \<Rightarrow> compiler_cache outcome" where
  "dispatch_queue_events [] cache = finished cache []"
| "dispatch_queue_events (Execute task # evs) cache =
     and_then (CompilerCache_handleQueueExecute task cache) (dispatch_queue_events evs)"
| "dispatch_queue_events (Drain # evs) cache = dispatch_queue_events evs cache"

definition CompilerCache_findCompiler :: "compiler_cache \<Rightarrow> string \<Rightarrow> string \<Rightarrow> string \<times> nat option" where
  "CompilerCache_findCompiler cache rtype platformName =
     (let pname = (if platformName = [] then ''generic'' else platformName);
          name1 = rtype @ ''.'' @ pname;
          name2 = rtype
      in case compilers cache name1 of
           Some dc \<Rightarrow> (name1, Some dc)
         | None \<Rightarrow> (name2, compilers cache name2))"

definition CompilerCache_enqueue :: "nat \<Rightarrow> string \<Rightarrow> string \<Rightarrow> build_input \<Rightarrow> compiler_cache \<Rightarrow>
    compiler_cache outcome" where
  \<comment> \<open>the branch of \<open>build\<close> that has found a compiler\<close>
  "CompilerCache_enqueue compiler compilerName targetPath input cache =
     (case monitors cache compiler of
        None \<Rightarrow> failed TypeError cache []
      | Some sv \<Rightarrow>
          (case sv_workQueue sv of
             None \<Rightarrow> failed TypeError cache []
           | Some jobq \<Rightarrow>
               (let (jobq', qevs) =
                      JobQueue_submit \<lparr> job_input = input, job_targetPath = targetPath,
                                        job_compilerName = compilerName,
                                        job_dataCompiler = compiler \<rparr> jobq
                in dispatch_queue_events qevs
                     (cache\<lparr> monitors := (monitors cache)
                                (compiler \<mapsto> sv\<lparr> sv_workQueue := Some jobq' \<rparr>) \<rparr>))))"

definition CompilerCache_build :: "string \<Rightarrow> build_input \<Rightarrow> compiler_cache \<Rightarrow> compiler_cache outcome" where
  "CompilerCache_build targetPath input cache =
     (let rtype = in_resourceType input;
          pname = in_platform input;
          (compilerName, compiler) = CompilerCache_findCompiler cache rtype pname
      in case compiler of
           Some dc \<Rightarrow> CompilerCache_enqueue dc compilerName targetPath input cache
         | None \<Rightarrow>
             finished cache
               [PoolSkipped input targetPath (''No data compiler for resource type '' @ rtype)])"

definition CompilerCache_handleMonitorMessage :: "nat \<Rightarrow> ipc_message \<Rightarrow> compiler_cache \<Rightarrow>
    compiler_cache outcome" where
  "CompilerCache_handleMonitorMessage mon message cache =
     (case monitors cache mon of
        None \<Rightarrow> failed TypeError cache []
      | Some sv \<Rightarrow>
          (case message of
             VERSION_DATA v \<Rightarrow>
               finished (cache\<lparr> monitors := (monitors cache)
                      (mon \<mapsto> sv\<lparr> sv_version :=
                          Some (case v of None \<Rightarrow> 1 | Some n \<Rightarrow> if n = 0 then 1 else n) \<rparr>) \<rparr>) []
           | BUILD_RESULT d \<Rightarrow>
               (case sv_workQueue sv of
                  None \<Rightarrow> failed TypeError cache []
                | Some queue \<Rightarrow>
                    (case JobQueue_front queue of
                       None \<Rightarrow> failed TypeError cache []
                     | Some task \<Rightarrow>
                         (let complete =
                                PoolComplete \<lparr> cr_input = job_input task,
                                               cr_compilerName = job_compilerName task,
                                               cr_compilerVersion = sv_version sv,
                                               cr_targetPath = res_targetPath d,
                                               cr_success = res_success d,
                                               cr_errors = res_errors d,
                                               cr_outputs = res_outputs d,
                                               cr_references = res_references d \<rparr>;
                              (queue', qevs) = JobQueue_complete queue
                          in and_then
                               (finished (cache\<lparr> monitors := (monitors cache)
                                        (mon \<mapsto> sv\<lparr> sv_workQueue := Some queue' \<rparr>) \<rparr>)
                                     [complete])
                               (dispatch_queue_events qevs))))
           | _ \<Rightarrow> finished cache []))"

definition CompilerCache_handleMonitorStart :: "nat \<Rightarrow> compiler_cache \<Rightarrow> compiler_cache outcome" where
  "CompilerCache_handleMonitorStart mon cache =
     (case monitors cache mon of
        None \<Rightarrow> failed TypeError cache []
      | Some sv \<Rightarrow>
          (case Monitor_send VERSION_QUERY (sv_monitor sv) of
             Inl e \<Rightarrow>
               failed e (cache\<lparr> childProcessCount := childProcessCount cache + 1,
                                monitors := (monitors cache)
                                  (mon \<mapsto> sv\<lparr> sv_version := Some 0, sv_workQueue := Some [] \<rparr>) \<rparr>) []
           | Inr m \<Rightarrow>
               (let cache' = cache\<lparr> childProcessCount := childProcessCount cache + 1,
                                     monitors := (monitors cache)
                                       (mon \<mapsto> sv\<lparr> sv_monitor := m, sv_version := Some 0,
                                                  sv_workQueue := Some [] \<rparr>),
                                     waitCount := waitCount cache - 1 \<rparr>
                in finished cache' (if waitCount cache' = 0 then [PoolReady] else []))))"

definition CompilerCache_handleMonitorError :: "nat \<Rightarrow> compiler_cache \<Rightarrow> compiler_cache outcome" where
  "CompilerCache_handleMonitorError mon cache =
     (case monitors cache mon of
        None \<Rightarrow> failed TypeError cache []
      | Some sv \<Rightarrow>
          finished cache
            [PoolError (case sv_types sv of [] \<Rightarrow> None | t # _ \<Rightarrow> Some t)
                       (scriptPath (sv_monitor sv))])"

definition Path_dirname :: "string \<Rightarrow> string" where
  "Path_dirname p =
     (let i = lastIndexOf p Path_sep
      in if i < 0 then ''.'' else if i = 0 then [Path_sep] else take (nat i) p)"

definition join_with :: "string \<Rightarrow> string list \<Rightarrow> string" where
  \<comment> \<open>\<open>xs.join(sep)\<close>\<close>
  "join_with sep xs = (case xs of [] \<Rightarrow> [] | x # rest \<Rightarrow> foldl (\<lambda>acc y. acc @ sep @ y) x rest)"

definition buildMonitorConfigKey :: "string \<Rightarrow> monitor_config \<Rightarrow> string" where
  "buildMonitorConfigKey root config =
     (let path = Path_join root (cfg_path config);
          args = join_with '' '' (cfg_arguments config);
          cwd = (if cfg_workingDirectory config = [] then Path_dirname path
                 else cfg_workingDirectory config)
      in join_with '' '' [cwd, path, args])"

text \<open>
  \<open>CompilerCache.prototype.startup\<close>, for the pipeline as a list of routes in
  key order. \<open>fork\<close> says, for a script path, what \<open>ChildProcess.fork\<close> does
  (the pid, or \<open>None\<close> when it throws). The result also holds the supervisor
  events scheduled for the next tick, each with the address of its supervisor;
  an exception of \<open>Monitor.start\<close> leaves the loop and \<open>startup\<close>.
\<close>

record startup_result =
  su_error :: "js_error option"
  su_cache :: compiler_cache
  su_nextTick :: "(nat \<times> monitor_event) list"

fun startup_loop :: "string \<Rightarrow> string \<Rightarrow> (string \<times> string) list \<Rightarrow> int \<Rightarrow> (string \<Rightarrow> int option) \<Rightarrow>
    (string \<times> monitor_config) list \<Rightarrow> compiler_cache \<Rightarrow> (nat \<times> monitor_event) list \<Rightarrow>
    startup_result" where
  "startup_loop processorRoot cwd processEnv now fork [] cache ticks =
     \<lparr> su_error = None, su_cache = cache, su_nextTick = ticks \<rparr>"
| "startup_loop processorRoot cwd processEnv now fork ((key, mc) # rest) cache ticks =
     (let mck = buildMonitorConfigKey processorRoot mc
      in case pathTable cache mck of
           Some mon \<Rightarrow>
             startup_loop processorRoot cwd processEnv now fork rest
               (cache\<lparr> compilers := (compilers cache)(key \<mapsto> mon),
                       monitors := (case monitors cache mon of
                                      None \<Rightarrow> monitors cache
                                    | Some sv \<Rightarrow> (monitors cache)
                                        (mon \<mapsto> sv\<lparr> sv_types := sv_types sv @ [key] \<rparr>)) \<rparr>)
               ticks
         | None \<Rightarrow>
             (let mc' = mc\<lparr> cfg_path := Path_join processorRoot (cfg_path mc) \<rparr>;
                  mon = nextMonitor cache;
                  r = Monitor_start None now (fork (cfg_path mc')) (Monitor_new cwd processEnv now mc');
                  sv = \<lparr> sv_monitor = after r, sv_name = mck, sv_types = [key],
                         sv_version = None, sv_workQueue = None \<rparr>;
                  cache' = cache\<lparr> monitors := (monitors cache)(mon \<mapsto> sv),
                                   nextMonitor := Suc mon,
                                   compilers := (compilers cache)(key \<mapsto> mon),
                                   pathTable := (pathTable cache)(mck \<mapsto> mon),
                                   waitCount := waitCount cache + 1 \<rparr>;
                  ticks' = ticks @ map (Pair mon) (nextTick r)
              in case thrown r of
                   Some e \<Rightarrow> \<lparr> su_error = Some e, su_cache = cache', su_nextTick = ticks' \<rparr>
                 | None \<Rightarrow> startup_loop processorRoot cwd processEnv now fork rest cache' ticks'))"

definition CompilerCache_startup :: "string \<Rightarrow> string \<Rightarrow> (string \<times> string) list \<Rightarrow> int \<Rightarrow>
    (string \<Rightarrow> int option) \<Rightarrow> (string \<times> monitor_config) list \<Rightarrow> compiler_cache \<Rightarrow> startup_result" where
  "CompilerCache_startup processorRoot cwd processEnv now fork config cache =
     startup_loop processorRoot cwd processEnv now fork config cache []"

definition createCompilerCache :: "string \<Rightarrow> string \<Rightarrow> (string \<times> string) list \<Rightarrow> int \<Rightarrow>
    (string \<Rightarrow> int option) \<Rightarrow> (string \<times> monitor_config) list \<Rightarrow> js_error + compiler_cache" where
  \<comment> \<open>the caller receives the pool only if \<open>startup\<close> returns\<close>
  "createCompilerCache processorRoot cwd processEnv now fork pipelineDefinition =
     (let r = CompilerCache_startup processorRoot cwd processEnv now fork pipelineDefinition
                CompilerCache_new
      in case su_error r of Some e \<Rightarrow> Inl e | None \<Rightarrow> Inr (su_cache r))"

text \<open>One supervisor's queue, driven by submissions and by the worker's results.\<close>

datatype queue_op = Submit string string build_input | Result build_result

fun run_queue :: "nat \<Rightarrow> queue_op list \<Rightarrow> compiler_cache \<Rightarrow> compiler_cache outcome" where
  "run_queue mon [] cache = finished cache []"
| "run_queue mon (Submit compilerName targetPath input # ops) cache =
     and_then (CompilerCache_enqueue mon compilerName targetPath input cache) (run_queue mon ops)"
| "run_queue mon (Result d # ops) cache =
     and_then (CompilerCache_handleMonitorMessage mon (BUILD_RESULT d) cache) (run_queue mon ops)"

fun submitted :: "nat \<Rightarrow> queue_op list \<Rightarrow> job list" where
  "submitted mon [] = []"
| "submitted mon (Submit compilerName targetPath input # ops) =
     \<lparr> job_input = input, job_targetPath = targetPath, job_compilerName = compilerName,
       job_dataCompiler = mon \<rparr> # submitted mon ops"
| "submitted mon (Result d # ops) = submitted mon ops"

definition queue_of :: "nat \<Rightarrow> compiler_cache \<Rightarrow> job list" where
  "queue_of mon cache =
     (case monitors cache mon of
        None \<Rightarrow> []
      | Some sv \<Rightarrow> (case sv_workQueue sv of None \<Rightarrow> [] | Some q \<Rightarrow> q))"

text \<open>
  What can be observed of one supervisor: its queue, the messages in its worker's
  inbox, the compiler version it reported, whether its IPC channel takes
  messages, and whether the pool has seen its \<open>start\<close> event (the queue exists,
  and an open channel has a child behind it). \<open>submitted\<close>, \<open>results\<close>,
  \<open>completions\<close> and \<open>started_jobs\<close> read the jobs submitted, the results
  delivered, the \<open>complete\<close> events and the jobs of the \<open>started\<close> events off a
  run. \<open>begun_upto n jobs\<close> is the first \<open>n\<close> jobs and the one after them, if
  there is one: the jobs that have been at the head of the queue once \<open>n\<close> of them
  are complete. \<open>answers_requests\<close> says that the worker keeps to the protocol: no
  result without a job waiting for it.
\<close>

fun results :: "queue_op list \<Rightarrow> build_result list" where
  "results [] = []"
| "results (Submit compilerName targetPath input # ops) = results ops"
| "results (Result d # ops) = d # results ops"

fun completions :: "pool_event list \<Rightarrow> complete_result list" where
  "completions [] = []"
| "completions (PoolComplete r # evs) = r # completions evs"
| "completions (_ # evs) = completions evs"

fun started_jobs :: "nat \<Rightarrow> pool_event list \<Rightarrow> job list" where
  "started_jobs mon [] = []"
| "started_jobs mon (PoolStarted input targetPath compilerName # evs) =
     \<lparr> job_input = input, job_targetPath = targetPath, job_compilerName = compilerName,
       job_dataCompiler = mon \<rparr> # started_jobs mon evs"
| "started_jobs mon (_ # evs) = started_jobs mon evs"

definition complete_of :: "int option \<Rightarrow> job \<Rightarrow> build_result \<Rightarrow> complete_result" where
  "complete_of v task d =
     \<lparr> cr_input = job_input task, cr_compilerName = job_compilerName task,
       cr_compilerVersion = v, cr_targetPath = res_targetPath d, cr_success = res_success d,
       cr_errors = res_errors d, cr_outputs = res_outputs d,
       cr_references = res_references d \<rparr>"

definition request_of :: "job \<Rightarrow> ipc_message" where
  "request_of task =
     BUILD_REQUEST \<lparr> req_sourcePath = in_sourcePath (job_input task),
                     req_targetPath = job_targetPath task,
                     req_platform = in_platform (job_input task) \<rparr>"

definition inbox_of :: "nat \<Rightarrow> compiler_cache \<Rightarrow> ipc_message list" where
  "inbox_of mon cache =
     (case monitors cache mon of
        None \<Rightarrow> []
      | Some sv \<Rightarrow> (case childProcess (sv_monitor sv) of None \<Rightarrow> [] | Some cp \<Rightarrow> child_inbox cp))"

definition version_of :: "nat \<Rightarrow> compiler_cache \<Rightarrow> int option" where
  "version_of mon cache = (case monitors cache mon of None \<Rightarrow> None | Some sv \<Rightarrow> sv_version sv)"

definition connected :: "nat \<Rightarrow> compiler_cache \<Rightarrow> bool" where
  "connected mon cache = (case monitors cache mon of None \<Rightarrow> False | Some sv \<Rightarrow> canSendIPC (sv_monitor sv))"

definition started_up :: "nat \<Rightarrow> compiler_cache \<Rightarrow> bool" where
  "started_up mon cache =
     (case monitors cache mon of
        None \<Rightarrow> False
      | Some sv \<Rightarrow> sv_workQueue sv \<noteq> None \<and>
          (canSendIPC (sv_monitor sv) \<longrightarrow> childProcess (sv_monitor sv) \<noteq> None))"

definition begun_upto :: "nat \<Rightarrow> job list \<Rightarrow> job list" where
  "begun_upto n jobs = take (n + min 1 (length (drop n jobs))) jobs"

fun answers_requests :: "nat \<Rightarrow> queue_op list \<Rightarrow> bool" where
  "answers_requests pending [] = True"
| "answers_requests pending (Submit compilerName targetPath input # ops) =
     answers_requests (Suc pending) ops"
| "answers_requests pending (Result d # ops) =
     (0 < pending \<and> answers_requests (pending - 1) ops)"

section \<open>The filesystem\<close>

record fstat =
  st_mtime :: int
  st_size :: int
  st_isFile :: bool

record resource_record =
  rr_name :: string
  rr_type :: string
  rr_tags :: "string list"
  rr_data :: "string list"

record manifest =
  mf_projectName :: string
  mf_packageName :: string
  mf_buildDate :: int
  mf_platform :: string
  mf_resources :: "resource_record list"

datatype document =
    SourceDbDoc string "source_entry option list"
  | TargetDbDoc string string "target_entry option list"
  | ManifestDoc manifest

text \<open>
  The content files (sources and build outputs), whose modification time and size
  the rebuild check reads, are kept in \<open>fs_stats\<close>. The documents the engine writes
  with \<open>writeFileSync\<close> (database files and the package manifest) are kept apart,
  in \<open>fs_docs\<close>, by their parsed content; a document is a regular file, and the
  engine never reads its time or size. \<open>fs_walk dir\<close> is the sequence of paths that
  \<open>walkTree\<close> (recursive, hidden names skipped) hands to its callback. Writes are
  taken to succeed.
\<close>

record filesystem =
  fs_stats :: "string \<rightharpoonup> fstat"
  fs_docs :: "string \<rightharpoonup> document"
  fs_walk :: "string \<Rightarrow> string list"

definition statSync :: "filesystem \<Rightarrow> string \<Rightarrow> js_error + fstat" where
  "statSync fs path = (case fs_stats fs path of None \<Rightarrow> Inl FsError | Some st \<Rightarrow> Inr st)"

definition FSUtil_isFile :: "filesystem \<Rightarrow> string \<Rightarrow> bool" where
  "FSUtil_isFile fs path =
     (case fs_docs fs path of
        Some d \<Rightarrow> True
      | None \<Rightarrow> (case statSync fs path of Inl err \<Rightarrow> False | Inr st \<Rightarrow> st_isFile st))"

definition existsSync :: "filesystem \<Rightarrow> string \<Rightarrow> bool" where
  "existsSync fs path \<longleftrightarrow> fs_docs fs path \<noteq> None \<or> fs_stats fs path \<noteq> None"

definition writeFileSync :: "string \<Rightarrow> document \<Rightarrow> filesystem \<Rightarrow> filesystem" where
  "writeFileSync path doc fs = fs\<lparr> fs_docs := (fs_docs fs)(path \<mapsto> doc) \<rparr>"

definition SourceDatabase_load :: "filesystem \<Rightarrow> string \<Rightarrow> source_entry database \<Rightarrow>
    js_error + source_entry database" where
  "SourceDatabase_load fs path db =
     (case fs_docs fs path of
        Some (SourceDbDoc name es) \<Rightarrow> db_load relativePath name es db
      | Some other \<Rightarrow> Inl SyntaxError
      | None \<Rightarrow> Inl (if fs_stats fs path = None then FsError else SyntaxError))"

definition TargetDatabase_load :: "filesystem \<Rightarrow> string \<Rightarrow> target_entry target_database \<Rightarrow>
    js_error + target_entry target_database" where
  "TargetDatabase_load fs path db =
     (case fs_docs fs path of
        Some (TargetDbDoc name pf es) \<Rightarrow>
          db_load te_relativePath name es (db\<lparr> db_platform := pf \<rparr>)
      | Some other \<Rightarrow> Inl SyntaxError
      | None \<Rightarrow> Inl (if fs_stats fs path = None then FsError else SyntaxError))"

definition SourceDatabase_save :: "string \<Rightarrow> source_entry database \<Rightarrow> filesystem \<Rightarrow>
    source_entry database \<times> filesystem" where
  "SourceDatabase_save path db fs =
     (db\<lparr> dirty := False \<rparr>, writeFileSync path (SourceDbDoc (bundleName db) (entries db)) fs)"

definition TargetDatabase_save :: "string \<Rightarrow> target_entry target_database \<Rightarrow> filesystem \<Rightarrow>
    target_entry target_database \<times> filesystem" where
  "TargetDatabase_save path db fs =
     (db\<lparr> dirty := False \<rparr>,
      writeFileSync path (TargetDbDoc (bundleName db) (db_platform db) (entries db)) fs)"

definition SourceDatabase_create :: "source_entry database \<Rightarrow> filesystem \<Rightarrow> string \<Rightarrow> string \<Rightarrow>
    js_error + source_entry" where
  "SourceDatabase_create db fs rootPath sourcePath =
     (case statSync fs sourcePath of
        Inl err \<Rightarrow> Inl err
      | Inr st \<Rightarrow>
          (let parts = parseResourcePath (resourceRoot db) sourcePath
           in Inr \<lparr> relativePath = Path_relative rootPath sourcePath,
                    resourceName = parts_resourceName parts,
                    resourceType = parts_resourceType parts,
                    platform = [],
                    properties = parts_properties parts,
                    references = [],
                    dependencies = [],
                    writeTime = st_mtime st,
                    fileSize = st_size st \<rparr>))"

definition loadSourceDatabase :: "filesystem \<Rightarrow> string \<Rightarrow> js_error + source_entry database" where
  "loadSourceDatabase fs path =
     (if existsSync fs path then SourceDatabase_load fs path SourceDatabase_new
      else Inr (SourceDatabase_new\<lparr> dirty := True \<rparr>))"

definition loadTargetDatabase :: "filesystem \<Rightarrow> string \<Rightarrow> js_error + target_entry target_database" where
  "loadTargetDatabase fs path =
     (if existsSync fs path then TargetDatabase_load fs path TargetDatabase_new
      else Inr (TargetDatabase_new\<lparr> dirty := True \<rparr>))"

section \<open>The target-platform view\<close>

record target =
  t_sourceDb :: "source_entry database"
  t_targetDb :: "target_entry target_database"
  t_rootPath :: string
  t_sourcePath :: string
  t_targetPath :: string
  t_packageName :: string
  t_platformName :: string
  t_sourceDbPath :: string
  t_targetDbPath :: string

definition GENERIC_PLATFORM :: string where
  "GENERIC_PLATFORM = ''generic''"

record target_args =
  a_packageName :: string
  a_packageRoot :: string
  a_databaseRoot :: string
  a_sourceRoot :: string
  a_platformName :: string

definition Target_create :: "filesystem \<Rightarrow> target_args \<Rightarrow> js_error + target" where
  \<comment> \<open>the directories that \<open>makeTree\<close> creates are not tracked\<close>
  "Target_create fs args =
     (let pf = (if a_platformName args = [] then GENERIC_PLATFORM else a_platformName args);
          targetName = a_packageName args @ ''.'' @ pf @ ''.target'';
          sourceDbName = a_packageName args @ ''.'' @ pf @ ''.source.json'';
          targetDbName = a_packageName args @ ''.'' @ pf @ ''.target.json'';
          targetPath = Path_join (a_packageRoot args) targetName;
          targetDbPath = Path_join (a_databaseRoot args) targetDbName;
          sourceDbPath = Path_join (a_databaseRoot args) sourceDbName
      in case loadSourceDatabase fs sourceDbPath of
           Inl err \<Rightarrow> Inl err
         | Inr sdb \<Rightarrow>
             (case loadTargetDatabase fs targetDbPath of
                Inl err \<Rightarrow> Inl err
              | Inr tdb \<Rightarrow>
                  Inr \<lparr> t_sourceDb = sdb\<lparr> bundleName := a_packageName args,
                                            resourceRoot := a_sourceRoot args \<rparr>,
                        t_targetDb = tdb\<lparr> db_platform := pf,
                                            bundleName := a_packageName args,
                                            resourceRoot := targetPath \<rparr>,
                        t_rootPath = a_packageRoot args,
                        t_sourcePath = a_sourceRoot args,
                        t_targetPath = targetPath,
                        t_packageName = a_packageName args,
                        t_platformName = pf,
                        t_sourceDbPath = sourceDbPath,
                        t_targetDbPath = targetDbPath \<rparr>))"

section \<open>The target builder and the package builder\<close>

record source_info =
  si_resourceName :: string
  si_sourceEntry :: source_entry
  si_sourcePath :: string
  si_targetPath :: string
  si_platform :: string

text \<open>
  The events of a build, by emitter: the pool's events as the target builder
  receives them, the target builder's events (\<open>started\<close>, \<open>skipped\<close>, \<open>success\<close>,
  \<open>error\<close>) and the package builder's events (\<open>start\<close>, \<open>compile\<close>, \<open>ignore\<close>,
  \<open>success\<close>, \<open>error\<close>, \<open>finish\<close>). The project and package names that every event
  also carries are those of the builder and are left out. A source path is
  optional because the target builder, handling the pool's \<open>skipped\<close> event, reads
  \<open>result.sourcePath\<close>, which that event does not have.
\<close>

datatype build_event =
    FromPool pool_event
  | BuilderStarted string string string
  | BuilderSkipped "string option" string string
  | BuilderSuccess string string string "string list"
  | BuilderError string string string "string list"
  | PkgStart string
  | PkgCompile string string string string
  | PkgIgnore string "string option" string string
  | PkgSuccess string string string string "string list"
  | PkgError string string string string "string list"
  | PkgFinish string int int int bool

text \<open>
  One target build: the target builder with the counters the package builder
  keeps on it, whether the package builder's listeners are attached to it, the
  filesystem, the clock that \<open>new Date()\<close> reads, the pool, and the events emitted
  so far. A step returns the exception that ended it, if any, with the state it
  left.
\<close>

record build_state =
  bs_projectName :: string
  bs_packageName :: string
  bs_target :: target
  bs_platforms :: "string list"
  bs_sourceFiles :: "(string \<times> source_info) list"
  bs_expect :: int
  bs_errors :: int
  bs_success :: int
  bs_skipped :: int
  bs_started :: bool
  bs_listening :: bool
  bs_fs :: filesystem
  bs_clock :: int
  bs_cache :: compiler_cache
  bs_log :: "build_event list"

definition emit :: "build_event \<Rightarrow> build_state \<Rightarrow> build_state" where
  "emit ev st = st\<lparr> bs_log := bs_log st @ [ev] \<rparr>"

definition MANIFEST_NAME :: string where
  "MANIFEST_NAME = ''package.manifest''"

definition sourceFileModified :: "source_entry \<Rightarrow> fstat \<Rightarrow> bool" where
  "sourceFileModified entry st =
     (if st_mtime st \<noteq> writeTime entry then True
      else if st_size st \<noteq> fileSize entry then True
      else False)"

text \<open>
  In \<open>dependenciesModified\<close> the loop over the dependencies calls
  \<open>e.dependenciesModified(bundle, e)\<close> on the database record of a dependency. A
  record is a plain object without such a method and no variable \<open>bundle\<close> is in
  scope: evaluating the call throws, and the \<open>catch\<close> around the body answers
  \<open>true\<close>.
\<close>

definition call_dependenciesModified_of_entry :: "source_entry \<Rightarrow> js_error + bool" where
  "call_dependenciesModified_of_entry e = Inl ReferenceError"

fun dependencies_loop :: "source_entry database \<Rightarrow> string \<Rightarrow> string list \<Rightarrow> js_error + bool" where
  "dependencies_loop db root [] = Inr False"
| "dependencies_loop db root (dep # rest) =
     (case SourceDatabase_query db root (Path_join root dep) of
        None \<Rightarrow> Inr True
      | Some e \<Rightarrow>
          (case call_dependenciesModified_of_entry e of
             Inl err \<Rightarrow> Inl err
           | Inr modified \<Rightarrow> if modified then Inr True else dependencies_loop db root rest))"

definition dependenciesModified :: "filesystem \<Rightarrow> target \<Rightarrow> source_entry \<Rightarrow> bool" where
  "dependenciesModified fs tgt entry =
     (case (case statSync fs (Path_join (t_rootPath tgt) (relativePath entry)) of
              Inl err \<Rightarrow> Inl err
            | Inr st \<Rightarrow>
                if sourceFileModified entry st then Inr True
                else dependencies_loop (t_sourceDb tgt) (t_rootPath tgt) (dependencies entry)) of
        Inl err \<Rightarrow> True
      | Inr r \<Rightarrow> r)"

definition buildOutputsExist :: "filesystem \<Rightarrow> target \<Rightarrow> string \<Rightarrow> bool" where
  "buildOutputsExist fs tgt targetPath =
     (case TargetDatabase_query (t_targetDb tgt) (t_rootPath tgt) targetPath of
        Some entry \<Rightarrow>
          list_all (\<lambda>out. FSUtil_isFile fs (Path_join (t_rootPath tgt) out)) (te_outputs entry)
      | None \<Rightarrow> True)"

definition requiresRebuild :: "filesystem \<Rightarrow> target \<Rightarrow> source_entry \<Rightarrow> string \<Rightarrow> bool" where
  "requiresRebuild fs tgt entry targetPath =
     (if dependenciesModified fs tgt entry then True
      else if buildOutputsExist fs tgt targetPath = False then True
      else False)"

fun determinePlatform :: "string list \<Rightarrow> string list \<Rightarrow> string" where
  "determinePlatform pfs [] = GENERIC_PLATFORM"
| "determinePlatform pfs (propValue # rest) =
     (if propValue \<in> set pfs then propValue else determinePlatform pfs rest)"

subsection \<open>The package builder's handlers\<close>

definition PackageBuilder_notifyComplete :: "build_state \<Rightarrow> build_state" where
  "PackageBuilder_notifyComplete st =
     emit (PkgFinish (t_platformName (bs_target st)) (bs_success st) (bs_skipped st)
             (bs_errors st) (bs_errors st = 0)) st"

definition PackageBuilder_notifyStarted :: "build_state \<Rightarrow> build_state" where
  "PackageBuilder_notifyStarted st = emit (PkgStart (t_platformName (bs_target st))) st"

definition TargetBuilder_packageManifestExists :: "build_state \<Rightarrow> string \<Rightarrow> bool" where
  "TargetBuilder_packageManifestExists st manifestName =
     FSUtil_isFile (bs_fs st) (Path_join (t_targetPath (bs_target st)) manifestName)"

fun manifest_resources :: "source_entry database \<Rightarrow> string \<Rightarrow> string \<Rightarrow> target_entry option list \<Rightarrow>
    js_error + resource_record list" where
  "manifest_resources sdb root tdir [] = Inr []"
| "manifest_resources sdb root tdir (None # es) = Inl TypeError"
| "manifest_resources sdb root tdir (Some te # es) =
     (case SourceDatabase_query sdb root (Path_join root (te_sourcePath te)) of
        None \<Rightarrow> Inl TypeError
      | Some se \<Rightarrow>
          (case manifest_resources sdb root tdir es of
             Inl err \<Rightarrow> Inl err
           | Inr rs \<Rightarrow>
               Inr (\<lparr> rr_name = resourceName se, rr_type = resourceType se,
                       rr_tags = properties se,
                       rr_data = map (\<lambda>out. Path_relative tdir (Path_join root out))
                                   (te_outputs te) \<rparr> # rs)))"

definition TargetBuilder_writePackageManifest :: "string \<Rightarrow> build_state \<Rightarrow> js_error option \<times> build_state" where
  "TargetBuilder_writePackageManifest manifestName st =
     (let tgt = bs_target st
      in case manifest_resources (t_sourceDb tgt) (t_rootPath tgt) (t_targetPath tgt)
                (entries (t_targetDb tgt)) of
           Inl err \<Rightarrow> (Some err, st)
         | Inr rs \<Rightarrow>
             (None,
              st\<lparr> bs_fs :=
                    writeFileSync (Path_join (t_targetPath tgt) manifestName)
                      (ManifestDoc \<lparr> mf_projectName = bs_projectName st,
                                     mf_packageName = t_packageName tgt,
                                     mf_buildDate = bs_clock st,
                                     mf_platform = t_platformName tgt,
                                     mf_resources = rs \<rparr>)
                      (bs_fs st) \<rparr>))"

definition save_if_dirty :: "build_state \<Rightarrow> build_state \<times> bool" where
  \<comment> \<open>the two \<open>if (db.dirty)\<close> statements of \<open>targetComplete\<close>, with \<open>wasModified\<close>\<close>
  "save_if_dirty st =
     (let tgt = bs_target st;
          (sdb, fs1, modified1) =
             (if dirty (t_sourceDb tgt)
              then (let (d, f) = SourceDatabase_save (t_sourceDbPath tgt) (t_sourceDb tgt) (bs_fs st)
                    in (d, f, True))
              else (t_sourceDb tgt, bs_fs st, False));
          (tdb, fs2, modified2) =
             (if dirty (t_targetDb tgt)
              then (let (d, f) = TargetDatabase_save (t_targetDbPath tgt) (t_targetDb tgt) fs1
                    in (d, f, True))
              else (t_targetDb tgt, fs1, modified1))
      in (st\<lparr> bs_target := tgt\<lparr> t_sourceDb := sdb, t_targetDb := tdb \<rparr>, bs_fs := fs2 \<rparr>,
          modified2))"

definition PackageBuilder_targetComplete :: "build_state \<Rightarrow> js_error option \<times> build_state" where
  "PackageBuilder_targetComplete st =
     (let (st1, modified) = save_if_dirty st;
          wasModified =
            (if \<not> TargetBuilder_packageManifestExists st1 MANIFEST_NAME then True else modified);
          (err, st2) =
            (if wasModified \<and> 0 = bs_errors st1
             then TargetBuilder_writePackageManifest MANIFEST_NAME st1
             else (None, st1))
      in case err of
           Some e \<Rightarrow> (Some e, st2)
         | None \<Rightarrow> (None, PackageBuilder_notifyComplete (st2\<lparr> bs_listening := False \<rparr>)))"

definition count_event :: "build_state \<Rightarrow> js_error option \<times> build_state" where
  \<comment> \<open>the tail shared by the package builder's three result handlers\<close>
  "count_event st =
     (if bs_started st
      then (let st1 = st\<lparr> bs_expect := bs_expect st - 1 \<rparr>
            in if 0 = bs_expect st1 then PackageBuilder_targetComplete st1 else (None, st1))
      else (None, st))"

definition PackageBuilder_handleFileStarted :: "string \<Rightarrow> string \<Rightarrow> string \<Rightarrow> build_state \<Rightarrow> build_state" where
  "PackageBuilder_handleFileStarted sourcePath targetPath compilerName st =
     emit (PkgCompile (t_platformName (bs_target st)) sourcePath targetPath compilerName) st"

definition PackageBuilder_handleFileSkipped :: "string option \<Rightarrow> string \<Rightarrow> string \<Rightarrow> build_state \<Rightarrow>
    js_error option \<times> build_state" where
  "PackageBuilder_handleFileSkipped sourcePath targetPath reason st =
     count_event
       (emit (PkgIgnore (t_platformName (bs_target st)) sourcePath targetPath reason)
          (st\<lparr> bs_skipped := bs_skipped st + 1 \<rparr>))"

definition PackageBuilder_handleFileSuccess :: "string \<Rightarrow> string \<Rightarrow> string \<Rightarrow> string list \<Rightarrow>
    build_state \<Rightarrow> js_error option \<times> build_state" where
  "PackageBuilder_handleFileSuccess sourcePath targetPath compilerName outs st =
     count_event
       (emit (PkgSuccess (t_platformName (bs_target st)) sourcePath targetPath compilerName outs)
          (st\<lparr> bs_success := bs_success st + 1 \<rparr>))"

definition PackageBuilder_handleFileError :: "string \<Rightarrow> string \<Rightarrow> string \<Rightarrow> string list \<Rightarrow>
    build_state \<Rightarrow> js_error option \<times> build_state" where
  "PackageBuilder_handleFileError sourcePath targetPath compilerName errs st =
     count_event
       (emit (PkgError (t_platformName (bs_target st)) sourcePath targetPath compilerName errs)
          (st\<lparr> bs_errors := bs_errors st + 1 \<rparr>))"

subsection \<open>The target builder\<close>

text \<open>
  \<open>TargetBuilder_emit\<close> is \<open>this.emit\<close> of the target builder: the event goes to
  the package builder's handler if its listeners are attached; an \<open>error\<close> event
  that nobody listens to is thrown by the event emitter.
\<close>

definition TargetBuilder_emit :: "build_event \<Rightarrow> build_state \<Rightarrow> js_error option \<times> build_state" where
  "TargetBuilder_emit ev st =
     (let st1 = emit ev st
      in case ev of
           BuilderStarted src tp cn \<Rightarrow>
             (None, if bs_listening st1 then PackageBuilder_handleFileStarted src tp cn st1 else st1)
         | BuilderSkipped src tp why \<Rightarrow>
             (if bs_listening st1 then PackageBuilder_handleFileSkipped src tp why st1
              else (None, st1))
         | BuilderSuccess src tp cn outs \<Rightarrow>
             (if bs_listening st1 then PackageBuilder_handleFileSuccess src tp cn outs st1
              else (None, st1))
         | BuilderError src tp cn errs \<Rightarrow>
             (if bs_listening st1 then PackageBuilder_handleFileError src tp cn errs st1
              else (Some UnhandledErrorEvent, st1))
         | _ \<Rightarrow> (None, st1))"

definition TargetBuilder_skipSourceFile :: "string option \<Rightarrow> string \<Rightarrow> string \<Rightarrow> build_state \<Rightarrow>
    js_error option \<times> build_state" where
  "TargetBuilder_skipSourceFile sourcePath targetPath why st =
     TargetBuilder_emit (BuilderSkipped sourcePath targetPath why) st"

definition TargetBuilder_handleFileSkipped :: "build_input \<Rightarrow> string \<Rightarrow> string \<Rightarrow> build_state \<Rightarrow>
    js_error option \<times> build_state" where
  "TargetBuilder_handleFileSkipped input targetPath reason st =
     TargetBuilder_skipSourceFile None targetPath reason st"

definition TargetBuilder_handleFileStarted :: "build_input \<Rightarrow> string \<Rightarrow> string \<Rightarrow> build_state \<Rightarrow>
    js_error option \<times> build_state" where
  "TargetBuilder_handleFileStarted input targetPath compilerName st =
     TargetBuilder_emit (BuilderStarted (in_sourcePath input) (in_targetPath input) compilerName) st"

text \<open>
  Database records are objects, shared by reference. After \<open>sdb.insert(sourceEntry)\<close>
  the record \<open>sourceEntry\<close> of the build input is the database's record at the
  position that \<open>insert\<close> chose (\<open>position_of\<close>), so that \<open>addDependency\<close> on it changes
  the database; the record that \<open>query\<close> returned, or that was just created and
  inserted, is the database's record at its key's position, and \<open>addReference\<close>
  changes it there (\<open>mutate\<close>). No insert of the loop lands on the position of
  \<open>sourceEntry\<close>: a record is created only where \<open>query\<close> found none.
\<close>

definition position_of :: "('e, 'm) database_scheme \<Rightarrow> string \<Rightarrow> nat" where
  "position_of db key =
     (case entryTable db key of None \<Rightarrow> length (entries db) | Some existing \<Rightarrow> existing)"

definition mutate :: "nat \<Rightarrow> ('e \<Rightarrow> 'e) \<Rightarrow> 'e option list \<Rightarrow> 'e option list" where
  "mutate i f es = (case array_get es i of None \<Rightarrow> es | Some e \<Rightarrow> es[i := Some (f e)])"

fun reference_loop :: "string list \<Rightarrow> filesystem \<Rightarrow> string \<Rightarrow> string \<Rightarrow> nat \<Rightarrow> string list \<Rightarrow>
    source_entry database \<Rightarrow> js_error option \<times> source_entry database" where
  "reference_loop pfs fs root sourcePath p [] sdb = (None, sdb)"
| "reference_loop pfs fs root sourcePath p (ref # refs) sdb =
     (let r = position_of sdb (Path_relative root ref);
          (err, sdb1) =
             (case SourceDatabase_query sdb root ref of
                Some referenceEntry \<Rightarrow> (None, sdb)
              | None \<Rightarrow>
                  (case SourceDatabase_create sdb fs root ref of
                     Inl e \<Rightarrow> (Some e, sdb)
                   | Inr referenceEntry \<Rightarrow>
                       (None,
                        SourceDatabase_insert
                          (referenceEntry\<lparr> platform :=
                             determinePlatform pfs (properties referenceEntry) \<rparr>) sdb)))
      in case err of
           Some e \<Rightarrow> (Some e, sdb1)
         | None \<Rightarrow>
             reference_loop pfs fs root sourcePath p refs
               (sdb1\<lparr> entries :=
                        mutate p (\<lambda>e. addDependency e root ref)
                          (mutate r (\<lambda>e. addReference e root sourcePath) (entries sdb1)) \<rparr>))"

text \<open>
  \<open>handleFileComplete\<close> in two steps: what its statements do to the builder before
  the \<open>this.emit\<close> that ends either branch, with the event that is then emitted
  (\<open>handleFileComplete_update\<close>), and the emission.
\<close>

definition handleFileComplete_update :: "complete_result \<Rightarrow> build_state \<Rightarrow>
    js_error option \<times> build_state \<times> build_event option" where
  "handleFileComplete_update result st =
     (let sourceEntry = in_sourceEntry (cr_input result);
          sourcePath = in_sourcePath (cr_input result);
          targetPath = in_targetPath (cr_input result);
          compiler = cr_compilerName result;
          tgt = bs_target st;
          root = t_rootPath tgt;
          tdb = t_targetDb tgt;
          sdb = t_sourceDb tgt
      in if cr_success result
         then
           (let (err, sdb1) =
                  reference_loop (bs_platforms st) (bs_fs st) root sourcePath
                    (position_of sdb (relativePath sourceEntry)) (cr_references result)
                    (SourceDatabase_insert sourceEntry sdb)
            in case err of
                 Some e \<Rightarrow> (Some e, st\<lparr> bs_target := tgt\<lparr> t_sourceDb := sdb1 \<rparr> \<rparr>, None)
               | None \<Rightarrow>
                   (let targetEntry =
                          foldl (\<lambda>te out. addOutput te root out)
                            (TargetDatabase_create tdb root sourcePath targetPath compiler)
                            (cr_outputs result);
                        tdb1 = TargetDatabase_insert targetEntry tdb
                    in (None,
                        st\<lparr> bs_target := tgt\<lparr> t_sourceDb := sdb1, t_targetDb := tdb1 \<rparr> \<rparr>,
                        Some (BuilderSuccess sourcePath targetPath compiler (cr_outputs result)))))
         else
           (None, st, Some (BuilderError sourcePath targetPath compiler (cr_errors result))))"

definition TargetBuilder_handleFileComplete :: "complete_result \<Rightarrow> build_state \<Rightarrow>
    js_error option \<times> build_state" where
  "TargetBuilder_handleFileComplete result st =
     (case handleFileComplete_update result st of
        (None, st1, Some ev) \<Rightarrow> TargetBuilder_emit ev st1
      | (err, st1, _) \<Rightarrow> (err, st1))"

definition TargetBuilder_checkSourceFile :: "string \<Rightarrow> fstat \<Rightarrow> build_state \<Rightarrow>
    js_error option \<times> build_state" where
  "TargetBuilder_checkSourceFile absolutePath stat st =
     (if \<not> st_isFile stat then (None, st)
      else
        (let generic = GENERIC_PLATFORM;
             tgt = bs_target st;
             root = t_rootPath tgt
         in case SourceDatabase_create (t_sourceDb tgt) (bs_fs st) root absolutePath of
              Inl e \<Rightarrow> (Some e, st)
            | Inr created \<Rightarrow>
                (let name = resourceName created;
                     pf = determinePlatform (bs_platforms st) (properties created);
                     targetPath = targetPathFor (t_targetPath tgt) name;
                     sourcePath = absolutePath;
                     sourceEntry = created\<lparr> platform := pf \<rparr>;
                     res = map_of (bs_sourceFiles st) name
                 in if pf \<noteq> generic \<and> pf \<noteq> t_platformName tgt
                    then TargetBuilder_skipSourceFile (Some sourcePath) targetPath
                           ''Source file does not match current build target'' st
                    else if pf = generic \<and> generic \<noteq> t_platformName tgt \<and>
                            (case res of Some info \<Rightarrow> si_platform info \<noteq> generic | None \<Rightarrow> False)
                    then TargetBuilder_skipSourceFile (Some sourcePath) targetPath
                           ''Source file overridden by platform-specific version'' st
                    else
                      (let (err, st1) =
                             (case res of
                                Some info \<Rightarrow>
                                  if pf = t_platformName tgt \<and> si_platform info = generic
                                  then TargetBuilder_skipSourceFile (Some (si_sourcePath info))
                                         (si_targetPath info)
                                         ''Source file overridden by platform-specific version'' st
                                  else (None, st)
                              | None \<Rightarrow> (None, st))
                       in case err of
                            Some e \<Rightarrow> (Some e, st1)
                          | None \<Rightarrow>
                              (None,
                               st1\<lparr> bs_sourceFiles :=
                                      obj_set (bs_sourceFiles st1) name
                                        \<lparr> si_resourceName = name,
                                          si_sourceEntry = sourceEntry,
                                          si_sourcePath = sourcePath,
                                          si_targetPath = targetPath,
                                          si_platform = pf \<rparr> \<rparr>)))))"

fun walk_loop :: "string list \<Rightarrow> build_state \<Rightarrow> js_error option \<times> build_state" where
  "walk_loop [] st = (None, st)"
| "walk_loop (p # ps) st =
     (case statSync (bs_fs st) p of
        Inl e \<Rightarrow> (Some e, st)
      | Inr stat \<Rightarrow>
          (case TargetBuilder_checkSourceFile p stat st of
             (Some e, st1) \<Rightarrow> (Some e, st1)
           | (None, st1) \<Rightarrow> walk_loop ps st1))"

definition TargetBuilder_determineSourceFiles :: "build_state \<Rightarrow>
    js_error option \<times> build_state \<times> source_info list" where
  "TargetBuilder_determineSourceFiles st =
     (let st0 = st\<lparr> bs_sourceFiles := [] \<rparr>;
          from = t_sourcePath (bs_target st0)
      in case statSync (bs_fs st0) from of
           Inl e \<Rightarrow> (Some e, st0, [])
         | Inr statInfo \<Rightarrow>
             (let (err, st1) = walk_loop (fs_walk (bs_fs st0) from) st0
              in (err, st1, map snd (bs_sourceFiles st1))))"

fun TargetBuilder_determineBuildFiles :: "source_info list \<Rightarrow> build_state \<Rightarrow>
    js_error option \<times> build_state \<times> source_info list" where
  "TargetBuilder_determineBuildFiles [] st = (None, st, [])"
| "TargetBuilder_determineBuildFiles (info # rest) st =
     (let tgt = bs_target st;
          existing = SourceDatabase_query (t_sourceDb tgt) (t_rootPath tgt) (si_sourcePath info)
      in if (case existing of
               Some e \<Rightarrow> requiresRebuild (bs_fs st) tgt e (si_targetPath info) = False
             | None \<Rightarrow> False)
         then (case TargetBuilder_skipSourceFile (Some (si_sourcePath info)) (si_targetPath info)
                      ''Source file is up-to-date'' st of
                 (Some e, st1) \<Rightarrow> (Some e, st1, [])
               | (None, st1) \<Rightarrow> TargetBuilder_determineBuildFiles rest st1)
         else (case TargetBuilder_determineBuildFiles rest st of
                 (err, st1, buildFiles) \<Rightarrow> (err, st1, info # buildFiles)))"

text \<open>
  The target builder listens to the pool's \<open>started\<close>, \<open>skipped\<close> and \<open>complete\<close>
  events (the others go to the project builder). Its handlers do not call into
  the pool, so the events of one pool call are delivered after the call, in the
  order of their emission.
\<close>

definition TargetBuilder_on :: "pool_event \<Rightarrow> build_state \<Rightarrow> js_error option \<times> build_state" where
  "TargetBuilder_on ev st =
     (case ev of
        PoolStarted input targetPath compilerName \<Rightarrow>
          TargetBuilder_handleFileStarted input targetPath compilerName st
      | PoolSkipped input targetPath reason \<Rightarrow>
          TargetBuilder_handleFileSkipped input targetPath reason st
      | PoolComplete result \<Rightarrow> TargetBuilder_handleFileComplete result st
      | _ \<Rightarrow> (None, st))"

fun deliver :: "pool_event list \<Rightarrow> build_state \<Rightarrow> js_error option \<times> build_state" where
  "deliver [] st = (None, st)"
| "deliver (ev # evs) st =
     (case TargetBuilder_on ev (emit (FromPool ev) st) of
        (Some e, st1) \<Rightarrow> (Some e, st1)
      | (None, st1) \<Rightarrow> deliver evs st1)"

fun TargetBuilder_rebuildFiles :: "source_info list \<Rightarrow> build_state \<Rightarrow>
    js_error option \<times> build_state" where
  "TargetBuilder_rebuildFiles [] st = (None, st)"
| "TargetBuilder_rebuildFiles (source # rest) st =
     (let dbEntry = si_sourceEntry source;
          r = CompilerCache_build (si_targetPath source)
                \<lparr> in_sourcePath = si_sourcePath source,
                  in_targetPath = si_targetPath source,
                  in_sourceEntry = dbEntry,
                  in_resourceName = resourceName dbEntry,
                  in_resourceType = resourceType dbEntry,
                  in_platform = platform dbEntry \<rparr>
                (bs_cache st)
      in case deliver (oc_events r) (st\<lparr> bs_cache := oc_state r \<rparr>) of
           (Some e, st1) \<Rightarrow> (Some e, st1)
         | (None, st1) \<Rightarrow>
             (case oc_error r of
                Some e \<Rightarrow> (Some e, st1)
              | None \<Rightarrow> TargetBuilder_rebuildFiles rest st1))"

subsection \<open>Building one target\<close>

text \<open>
  \<open>buildTarget\<close> on the target that \<open>bundle.targetPlatform\<close> returned: a new target
  builder with its counters reset and the package builder's four listeners
  attached.
\<close>

definition begin_build :: "build_state \<Rightarrow> build_state" where
  "begin_build st =
     PackageBuilder_notifyStarted
       (st\<lparr> bs_sourceFiles := [], bs_expect := 0, bs_errors := 0, bs_success := 0,
             bs_skipped := 0, bs_started := False, bs_listening := True \<rparr>)"

definition PackageBuilder_buildTarget :: "build_state \<Rightarrow> js_error option \<times> build_state" where
  "PackageBuilder_buildTarget st =
     (let st0 = begin_build st
      in case TargetBuilder_determineSourceFiles st0 of
           (Some e, st1, sourceFiles) \<Rightarrow> (Some e, st1)
         | (None, st1, sourceFiles) \<Rightarrow>
             (case TargetBuilder_determineBuildFiles sourceFiles st1 of
                (Some e, st2, buildFiles) \<Rightarrow> (Some e, st2)
              | (None, st2, buildFiles) \<Rightarrow>
                  (case TargetBuilder_rebuildFiles buildFiles
                          (st2\<lparr> bs_expect := int (length buildFiles), bs_started := True \<rparr>) of
                     (Some e, st3) \<Rightarrow> (Some e, st3)
                   | (None, st3) \<Rightarrow>
                       if 0 = length buildFiles then PackageBuilder_targetComplete st3
                       else (None, st3))))"

text \<open>
  A message of a worker reaching the pool, with the pool's events delivered to
  the target builder.
\<close>

definition worker_message :: "nat \<Rightarrow> ipc_message \<Rightarrow> build_state \<Rightarrow> js_error option \<times> build_state" where
  "worker_message mon message st =
     (let r = CompilerCache_handleMonitorMessage mon message (bs_cache st)
      in case deliver (oc_events r) (st\<lparr> bs_cache := oc_state r \<rparr>) of
           (Some e, st1) \<Rightarrow> (Some e, st1)
         | (None, st1) \<Rightarrow> (oc_error r, st1))"

text \<open>
  The files that a build of the target would hand to the pool: the result of
  \<open>determineBuildFiles\<close> in \<open>buildTarget\<close>, if the two enumeration steps return.
\<close>

definition marked_for_build :: "build_state \<Rightarrow> source_info list option" where
  "marked_for_build st =
     (case TargetBuilder_determineSourceFiles (begin_build st) of
        (Some e, st1, sourceFiles) \<Rightarrow> None
      | (None, st1, sourceFiles) \<Rightarrow>
          (case TargetBuilder_determineBuildFiles sourceFiles st1 of
             (Some e, st2, buildFiles) \<Rightarrow> None
           | (None, st2, buildFiles) \<Rightarrow> Some buildFiles))"

text \<open>
  What the enumeration steps leave as it was: everything but the table of source
  files, the counters of skipped files and the events.
\<close>

definition kept :: "build_state \<Rightarrow> build_state \<Rightarrow> bool" where
  "kept st st' \<longleftrightarrow>
     bs_fs st' = bs_fs st \<and> bs_target st' = bs_target st \<and> bs_cache st' = bs_cache st \<and>
     bs_platforms st' = bs_platforms st \<and> bs_clock st' = bs_clock st \<and>
     bs_projectName st' = bs_projectName st \<and> bs_errors st' = bs_errors st \<and>
     bs_started st' = bs_started st \<and> bs_listening st' = bs_listening st"

text \<open>
  The rebuild decision as the specification words it, for a source that has a
  record: it is rebuilt when it or any source in its dependency chain differs on
  disk from its record (modification time or size), is missing on disk or has no
  record, or when one of its recorded outputs is missing. The chain is followed
  through the records of the dependencies, to the depth given.
\<close>

definition spec_changed :: "filesystem \<Rightarrow> target \<Rightarrow> source_entry \<Rightarrow> bool" where
  "spec_changed fs tgt entry =
     (case statSync fs (Path_join (t_rootPath tgt) (relativePath entry)) of
        Inl err \<Rightarrow> True
      | Inr st \<Rightarrow> sourceFileModified entry st)"

fun spec_chain_modified :: "nat \<Rightarrow> filesystem \<Rightarrow> target \<Rightarrow> source_entry \<Rightarrow> bool" where
  "spec_chain_modified 0 fs tgt entry = spec_changed fs tgt entry"
| "spec_chain_modified (Suc depth) fs tgt entry =
     (spec_changed fs tgt entry \<or>
      list_ex (\<lambda>dep. case SourceDatabase_query (t_sourceDb tgt) (t_rootPath tgt)
                            (Path_join (t_rootPath tgt) dep) of
                       None \<Rightarrow> True
                     | Some e \<Rightarrow> spec_chain_modified depth fs tgt e)
        (dependencies entry))"

definition spec_requiresRebuild :: "nat \<Rightarrow> filesystem \<Rightarrow> target \<Rightarrow> source_entry \<Rightarrow> string \<Rightarrow> bool" where
  "spec_requiresRebuild depth fs tgt entry targetPath =
     (if spec_chain_modified depth fs tgt entry then True
      else if buildOutputsExist fs tgt targetPath then False
      else True)"

section \<open>Example inputs\<close>

definition example_entry :: "string \<Rightarrow> source_entry" where
  "example_entry p =
     \<lparr> relativePath = p, resourceName = p, resourceType = [], platform = ''generic'',
       properties = [[]], references = [], dependencies = [], writeTime = 1000,
       fileSize = 10 \<rparr>"

definition example_target_entry :: "string \<Rightarrow> target_entry" where
  "example_target_entry p =
     \<lparr> te_relativePath = p, te_sourcePath = p, te_platform = ''generic'',
       te_compilerName = ''txt'', te_outputs = [] \<rparr>"

definition example_config :: monitor_config where
  "example_config =
     \<lparr> cfg_path = ''/proj/processors/txt.js'', cfg_workingDirectory = [], cfg_arguments = [],
       cfg_hideEnvironment = [], cfg_extraEnvironment = [], cfg_maxRestartCount = None,
       cfg_suppressStdio = None \<rparr>"

definition example_monitor :: monitor where
  "example_monitor =
     after (Monitor_start None 5 (Some 77) (Monitor_new ''/proj'' [] 0 example_config))"

definition example_cache :: compiler_cache where
  "example_cache =
     \<lparr> monitors = [0 \<mapsto> \<lparr> sv_monitor = example_monitor, sv_name = ''k'', sv_types = [''txt''],
                         sv_version = Some 1, sv_workQueue = Some [] \<rparr>],
       nextMonitor = 1, pathTable = [''k'' \<mapsto> 0], compilers = [''txt'' \<mapsto> 0],
       waitCount = 0, childProcessCount = 1 \<rparr>"

definition example_input :: "string \<Rightarrow> build_input" where
  "example_input p =
     \<lparr> in_sourcePath = ''/proj/packages/pkg.source/'' @ p, in_targetPath = ''/proj/packages/pkg.generic.target/'' @ p,
       in_sourceEntry = example_entry p, in_resourceName = p, in_resourceType = ''txt'',
       in_platform = ''generic'' \<rparr>"

definition example_result :: "bool \<Rightarrow> build_result" where
  "example_result ok =
     \<lparr> res_sourcePath = [], res_targetPath = ''t'', res_platform = ''generic'', res_success = ok,
       res_errors = [], res_outputs = [], res_references = [] \<rparr>"

definition example_ops :: "queue_op list" where
  "example_ops =
     [Submit ''txt'' ''/t/a'' (example_input ''a''), Submit ''txt'' ''/t/b'' (example_input ''b''),
      Result (example_result True), Result (example_result False)]"

definition example_job :: "string \<Rightarrow> job" where
  "example_job p =
     \<lparr> job_input = example_input p, job_targetPath = ''/t/'' @ p, job_compilerName = ''txt'',
       job_dataCompiler = 0 \<rparr>"

text \<open>
  A project \<open>proj\<close> with one package \<open>pkg\<close>, built for the generic platform: the
  source directory holds the files named, each of 10 bytes and last written at
  time 1000, and nothing has been built or saved yet.
\<close>

definition example_args :: target_args where
  "example_args =
     \<lparr> a_packageName = ''pkg'', a_packageRoot = ''/proj/packages'',
       a_databaseRoot = ''/proj/database'', a_sourceRoot = ''/proj/packages/pkg.source'',
       a_platformName = [] \<rparr>"

definition example_fs :: "string list \<Rightarrow> filesystem" where
  "example_fs names =
     \<lparr> fs_stats = (\<lambda>p. if p = ''/proj/packages/pkg.source''
                        then Some \<lparr> st_mtime = 900, st_size = 0, st_isFile = False \<rparr>
                        else if p \<in> set (map (Path_join ''/proj/packages/pkg.source'') names)
                        then Some \<lparr> st_mtime = 1000, st_size = 10, st_isFile = True \<rparr>
                        else None),
       fs_docs = Map.empty,
       fs_walk = (\<lambda>d. if d = ''/proj/packages/pkg.source''
                       then map (Path_join ''/proj/packages/pkg.source'') names else []) \<rparr>"

definition example_target :: "bool \<Rightarrow> bool \<Rightarrow> target" where
  \<comment> \<open>the target of \<open>example_args\<close> with empty databases, each dirty or not\<close>
  "example_target sourceDirty targetDirty =
     \<lparr> t_sourceDb = SourceDatabase_new\<lparr> dirty := sourceDirty, bundleName := ''pkg'',
                                          resourceRoot := ''/proj/packages/pkg.source'' \<rparr>,
       t_targetDb = TargetDatabase_new\<lparr> dirty := targetDirty, db_platform := ''generic'',
                                          bundleName := ''pkg'',
                                          resourceRoot := ''/proj/packages/pkg.generic.target'' \<rparr>,
       t_rootPath = ''/proj/packages'',
       t_sourcePath = ''/proj/packages/pkg.source'',
       t_targetPath = ''/proj/packages/pkg.generic.target'',
       t_packageName = ''pkg'',
       t_platformName = ''generic'',
       t_sourceDbPath = ''/proj/database/pkg.generic.source.json'',
       t_targetDbPath = ''/proj/database/pkg.generic.target.json'' \<rparr>"

definition example_build :: "filesystem \<Rightarrow> target \<Rightarrow> int \<Rightarrow> string list \<Rightarrow> compiler_cache \<Rightarrow>
    build_state" where
  "example_build fs tgt now pfs cache =
     \<lparr> bs_projectName = ''proj'', bs_packageName = ''pkg'', bs_target = tgt,
       bs_platforms = pfs, bs_sourceFiles = [], bs_expect = 0, bs_errors = 0,
       bs_success = 0, bs_skipped = 0, bs_started = False, bs_listening = False,
       bs_fs = fs, bs_clock = now, bs_cache = cache, bs_log = [] \<rparr>"

definition first_build :: "string list \<Rightarrow> compiler_cache \<Rightarrow> js_error option \<times> build_state" where
  \<comment> \<open>the first \<open>buildTarget\<close> of the example project, at time 1\<close>
  "first_build names cache =
     (case Target_create (example_fs names) example_args of
        Inl e \<Rightarrow> (Some e, example_build (example_fs names) (example_target True True) 1 [''ps3''] cache)
      | Inr tgt \<Rightarrow>
          PackageBuilder_buildTarget (example_build (example_fs names) tgt 1 [''ps3''] cache))"

text \<open>
  The worker's answer for \<open>a.txt\<close>: built, no output file, and the files it
  referenced.
\<close>

definition example_reply :: "string list \<Rightarrow> build_result" where
  "example_reply refs =
     \<lparr> res_sourcePath = ''/proj/packages/pkg.source/a.txt'',
       res_targetPath = ''/proj/packages/pkg.generic.target/61'',
       res_platform = ''generic'', res_success = True, res_errors = [],
       res_outputs = [], res_references = refs \<rparr>"

definition built_once :: "string list \<Rightarrow> string list \<Rightarrow> build_state" where
  \<comment> \<open>the example project after its first build and the worker's answer for \<open>a.txt\<close>\<close>
  "built_once names refs =
     snd (worker_message 0 (BUILD_RESULT (example_reply refs))
            (snd (first_build names example_cache)))"

definition second_build :: "string list \<Rightarrow> string list \<Rightarrow> js_error option \<times> build_state" where
  \<comment> \<open>a second \<open>buildTarget\<close>, at time 2, with nothing changed on disk\<close>
  "second_build names refs =
     PackageBuilder_buildTarget ((built_once names refs)\<lparr> bs_clock := 2, bs_log := [] \<rparr>)"

definition built_twice :: "string list \<Rightarrow> string list \<Rightarrow> build_state" where
  \<comment> \<open>and the worker's answer to the second build's request\<close>
  "built_twice names refs =
     snd (worker_message 0 (BUILD_RESULT (example_reply refs)) (snd (second_build names refs)))"

text \<open>
  A build of the example project holding only \<open>foo.unknown\<close>, with empty
  databases, each dirty or not, and the documents given.
\<close>

definition foo_build :: "bool \<Rightarrow> bool \<Rightarrow> (string \<rightharpoonup> document) \<Rightarrow> int \<Rightarrow> string list \<Rightarrow>
    compiler_cache \<Rightarrow> js_error option \<times> build_state" where
  "foo_build sourceDirty targetDirty docs now pfs cache =
     PackageBuilder_buildTarget
       (example_build ((example_fs [''foo.unknown''])\<lparr> fs_docs := docs \<rparr>)
          (example_target sourceDirty targetDirty) now pfs cache)"

definition foo_input :: build_input where
  "foo_input =
     \<lparr> in_sourcePath = ''/proj/packages/pkg.source/foo.unknown'',
       in_targetPath = ''/proj/packages/pkg.generic.target/19b7ef'',
       in_sourceEntry =
         \<lparr> relativePath = ''pkg.source/foo.unknown'', resourceName = ''foo'',
           resourceType = ''unknown'', platform = ''generic'', properties = [[]],
           references = [], dependencies = [], writeTime = 1000, fileSize = 10 \<rparr>,
       in_resourceName = ''foo'', in_resourceType = ''unknown'', in_platform = ''generic'' \<rparr>"

section \<open>Results\<close>

lemmas js_string_defs =
  indexOf_def lastIndexOf_def substring_def substringFrom_def split_def
  Path_relative_def Path_join_def Path_sep_def Let_def

lemmas db_defs =
  SourceDatabase_new_def TargetDatabase_new_def SourceDatabase_insert_def
  SourceDatabase_remove_def SourceDatabase_query_def TargetDatabase_insert_def
  TargetDatabase_remove_def TargetDatabase_query_def db_insert_def db_remove_def
  db_query_def array_get_def array_set_def array_splice1_def

subsection \<open>The resource-path parser\<close>

text \<open>
  C9. The specification says that a file name without a dot yields an empty
  resource type and an empty property list, and that an empty stretch between
  the first and the last dot yields the empty property list. The parser does
  neither: for the dotless name \<open>README\<close> both searches answer \<open>-1\<close>, so the
  resource name is empty and the resource type is the whole relative path; and
  splitting the empty string yields one empty property, for \<open>README\<close> as for
  \<open>foo.unknown\<close>.
\<close>

theorem parseResourcePath_dotless_and_empty_properties:
  "parseResourcePath ''/p/pkg.source'' ''/p/pkg.source/README'' =
     \<lparr> parts_resourceName = [], parts_resourceType = ''README'',
       parts_properties = [[]] \<rparr> \<and>
   parseResourcePath ''/p/pkg.source'' ''/p/pkg.source/foo.unknown'' =
     \<lparr> parts_resourceName = ''foo'', parts_resourceType = ''unknown'',
       parts_properties = [[]] \<rparr>"
  by (simp add: parseResourcePath_def js_string_defs)

subsection \<open>Primary keys of a database\<close>

text \<open>
  C3. The specification says that after every sequence of load, insert and
  remove the primary keys are unique and the side index maps each key to the
  position of its entry. \<open>remove\<close> splices the list without renumbering the
  index: after inserting \<open>a\<close> and \<open>b\<close> and removing \<open>a\<close>, the index still sends
  \<open>b\<close> to position 1 of a list of length 1, so \<open>b\<close> is no longer found; inserting
  \<open>b\<close> again then stores a second entry with the same key. The target database
  runs the same code.
\<close>

theorem remove_leaves_stale_index:
  "entryTable (SourceDatabase_remove ''/r'' ''/r/a''
      (SourceDatabase_insert (example_entry ''b'')
        (SourceDatabase_insert (example_entry ''a'') SourceDatabase_new))) ''b'' = Some 1 \<and>
   map (map_option relativePath) (entries (SourceDatabase_remove ''/r'' ''/r/a''
      (SourceDatabase_insert (example_entry ''b'')
        (SourceDatabase_insert (example_entry ''a'') SourceDatabase_new)))) = [Some ''b''] \<and>
   SourceDatabase_query (SourceDatabase_remove ''/r'' ''/r/a''
      (SourceDatabase_insert (example_entry ''b'')
        (SourceDatabase_insert (example_entry ''a'') SourceDatabase_new))) ''/r'' ''/r/b'' = None \<and>
   map (map_option relativePath) (entries (SourceDatabase_insert (example_entry ''b'')
      (SourceDatabase_remove ''/r'' ''/r/a''
        (SourceDatabase_insert (example_entry ''b'')
          (SourceDatabase_insert (example_entry ''a'') SourceDatabase_new))))) =
     [Some ''b'', Some ''b''] \<and>
   map (map_option te_relativePath) (entries (TargetDatabase_insert (example_target_entry ''b'')
      (TargetDatabase_remove ''/r'' ''/r/a''
        (TargetDatabase_insert (example_target_entry ''b'')
          (TargetDatabase_insert (example_target_entry ''a'') TargetDatabase_new))))) =
     [Some ''b'', Some ''b'']"
  by (simp add: db_defs js_string_defs example_entry_def example_target_entry_def)

subsection \<open>The stable file stem\<close>
















subsection \<open>Stopping a supervisor that has no running child\<close>

text \<open>
  C10. \<open>Monitor.kill\<close>, with any \<open>allowRestart\<close>, called when there is no child
  process or the child is not running, emits no event and leaves every field of
  the supervisor as it was.
\<close>

theorem kill_without_running_child_is_noop:
  "childProcess m = None \<or> \<not> isRunning m \<Longrightarrow> Monitor_kill allowRestart m = (m, [])"
  by (auto simp: Monitor_kill_def split: option.splits)

theorem kill_without_running_child_is_noop_witness:
  "(childProcess (Monitor_new ''/proj'' [] 0 example_config) = None \<or>
      \<not> isRunning (Monitor_new ''/proj'' [] 0 example_config)) \<and>
   Monitor_kill (Some False) (Monitor_new ''/proj'' [] 0 example_config) =
     (Monitor_new ''/proj'' [] 0 example_config, [])"
  using kill_without_running_child_is_noop
          [of "Monitor_new ''/proj'' [] 0 example_config" "Some False"]
  by (simp add: Monitor_new_def)

subsection \<open>A supervisor whose child cannot be spawned\<close>

text \<open>
  C8. The specification says that a failed spawn makes the supervisor emit
  \<open>error\<close>, which the pool re-emits. In \<open>Monitor.start\<close> the \<open>catch\<close> block
  schedules the \<open>error\<close> event for the next tick and falls through to the
  statements for a started child, where \<open>cproc\<close> is \<open>null\<close>: \<open>start\<close> throws a
  \<open>TypeError\<close>, which leaves \<open>startup\<close> and \<open>createCompilerCache\<close>, so the caller
  never receives the pool whose \<open>error\<close> event it was to hear.
\<close>

theorem spawn_failure_throws_out_of_start:
  "Monitor_start None now None (Monitor_new cwd penv t0 cfg) =
     \<lparr> thrown = Some TypeError,
       after = (Monitor_new cwd penv t0 cfg)\<lparr> startCount := Some 0, lastStartTime := now \<rparr>,
       emitted = [], nextTick = [EvError] \<rparr> \<and>
   createCompilerCache root cwd penv now (\<lambda>p. None) ((key, cfg) # routes) = Inl TypeError"
  by (simp add: Monitor_start_def Monitor_new_def defaultValue_def createCompilerCache_def
      CompilerCache_startup_def CompilerCache_new_def Let_def)

subsection \<open>The job queue of one supervisor\<close>

lemmas queue_defs =
  CompilerCache_enqueue_def CompilerCache_handleMonitorMessage_def
  CompilerCache_handleQueueExecute_def JobQueue_submit_def JobQueue_complete_def JobQueue_front_def
  Monitor_send_def Monitor_start_def Monitor_new_def defaultValue_def makeEnvironment_def
  finished_def failed_def and_then_def queue_of_def inbox_of_def version_of_def connected_def
  started_up_def begun_upto_def Let_def

lemma completions_append: "completions (xs @ ys) = completions xs @ completions ys"
  by (induction xs rule: completions.induct) simp_all

lemma started_jobs_append: "started_jobs mon (xs @ ys) = started_jobs mon xs @ started_jobs mon ys"
  by (induction mon xs rule: started_jobs.induct) simp_all

lemma execute_step:
  assumes "started_up mon cache" and "job_dataCompiler task = mon"
  shows "oc_error (CompilerCache_handleQueueExecute task cache) = None"
    and "oc_events (CompilerCache_handleQueueExecute task cache) =
           [PoolStarted (job_input task) (job_targetPath task) (job_compilerName task)]"
    and "started_up mon (oc_state (CompilerCache_handleQueueExecute task cache))"
    and "queue_of mon (oc_state (CompilerCache_handleQueueExecute task cache)) = queue_of mon cache"
    and "version_of mon (oc_state (CompilerCache_handleQueueExecute task cache)) = version_of mon cache"
    and "connected mon (oc_state (CompilerCache_handleQueueExecute task cache)) = connected mon cache"
    and "inbox_of mon (oc_state (CompilerCache_handleQueueExecute task cache)) =
           inbox_of mon cache @ (if connected mon cache then [request_of task] else [])"
  using assms
  by (auto simp: CompilerCache_handleQueueExecute_def Monitor_send_def started_up_def queue_of_def
      version_of_def connected_def inbox_of_def request_of_def finished_def failed_def Let_def
      split: option.splits)


lemma dispatch_single:
  "dispatch_queue_events [Execute j] cache = CompilerCache_handleQueueExecute j cache"
  by (cases "CompilerCache_handleQueueExecute j cache")
    (simp add: and_then_def finished_def Let_def split: option.splits)

lemma enqueue_step:
  assumes "started_up mon cache"
  shows "oc_error (CompilerCache_enqueue mon cn tp input cache) = None"
    and "oc_events (CompilerCache_enqueue mon cn tp input cache) =
           (if queue_of mon cache = [] then [PoolStarted input tp cn] else [])"
    and "started_up mon (oc_state (CompilerCache_enqueue mon cn tp input cache))"
    and "queue_of mon (oc_state (CompilerCache_enqueue mon cn tp input cache)) =
           queue_of mon cache @
           [\<lparr> job_input = input, job_targetPath = tp, job_compilerName = cn,
              job_dataCompiler = mon \<rparr>]"
    and "version_of mon (oc_state (CompilerCache_enqueue mon cn tp input cache)) =
           version_of mon cache"
    and "connected mon (oc_state (CompilerCache_enqueue mon cn tp input cache)) =
           connected mon cache"
    and "inbox_of mon (oc_state (CompilerCache_enqueue mon cn tp input cache)) =
           inbox_of mon cache @
           (if connected mon cache
            then map request_of
                   (started_jobs mon (oc_events (CompilerCache_enqueue mon cn tp input cache)))
            else [])"
proof -
  let ?j = "\<lparr> job_input = input, job_targetPath = tp, job_compilerName = cn,
              job_dataCompiler = mon \<rparr>"
  from assms obtain sv q where sv: "monitors cache mon = Some sv" and q: "sv_workQueue sv = Some q"
    by (auto simp: started_up_def split: option.splits)
  let ?c1 = "cache\<lparr> monitors := (monitors cache)(mon \<mapsto> sv\<lparr> sv_workQueue := Some (q @ [?j]) \<rparr>) \<rparr>"
  have e: "CompilerCache_enqueue mon cn tp input cache =
      (if q = [] then CompilerCache_handleQueueExecute ?j ?c1 else finished ?c1 [])"
    using dispatch_single [of ?j ?c1]
    by (cases q) (simp_all add: CompilerCache_enqueue_def sv q JobQueue_submit_def Let_def)
  have q0: "queue_of mon cache = q" by (simp add: queue_of_def sv q)
  have s1: "started_up mon ?c1" using assms by (simp add: started_up_def sv)
  have q1: "queue_of mon ?c1 = q @ [?j]" by (simp add: queue_of_def)
  have v1: "version_of mon ?c1 = version_of mon cache" by (simp add: version_of_def sv)
  have c1: "connected mon ?c1 = connected mon cache" by (simp add: connected_def sv)
  have i1: "inbox_of mon ?c1 = inbox_of mon cache" by (simp add: inbox_of_def sv)
  have d: "job_dataCompiler ?j = mon" by simp
  note ex = execute_step [OF s1 d]
  show "oc_error (CompilerCache_enqueue mon cn tp input cache) = None"
    unfolding e using ex(1) by (auto simp: finished_def)
  show "oc_events (CompilerCache_enqueue mon cn tp input cache) =
           (if queue_of mon cache = [] then [PoolStarted input tp cn] else [])"
    unfolding e q0 using ex(2) by (auto simp: finished_def)
  show "started_up mon (oc_state (CompilerCache_enqueue mon cn tp input cache))"
    unfolding e using ex(3) s1 by (auto simp: finished_def)
  show "queue_of mon (oc_state (CompilerCache_enqueue mon cn tp input cache)) =
           queue_of mon cache @ [?j]"
    unfolding e q0 using ex(4) q1 by (auto simp: finished_def)
  show "version_of mon (oc_state (CompilerCache_enqueue mon cn tp input cache)) =
           version_of mon cache"
    unfolding e using ex(5) v1 by (auto simp: finished_def)
  show "connected mon (oc_state (CompilerCache_enqueue mon cn tp input cache)) =
           connected mon cache"
    unfolding e using ex(6) c1 by (auto simp: finished_def)
  show "inbox_of mon (oc_state (CompilerCache_enqueue mon cn tp input cache)) =
           inbox_of mon cache @
           (if connected mon cache
            then map request_of
                   (started_jobs mon (oc_events (CompilerCache_enqueue mon cn tp input cache)))
            else [])"
    unfolding e using ex(2) ex(7) c1 i1 by (auto simp: finished_def)
qed

lemma result_step:
  assumes "started_up mon cache"
    and "queue_of mon cache = task # rest"
    and "\<forall>j\<in>set rest. job_dataCompiler j = mon"
  shows "oc_error (CompilerCache_handleMonitorMessage mon (BUILD_RESULT d) cache) = None"
    and "oc_events (CompilerCache_handleMonitorMessage mon (BUILD_RESULT d) cache) =
           PoolComplete (complete_of (version_of mon cache) task d) #
           (case rest of [] \<Rightarrow> []
            | j # _ \<Rightarrow> [PoolStarted (job_input j) (job_targetPath j) (job_compilerName j)])"
    and "started_up mon (oc_state (CompilerCache_handleMonitorMessage mon (BUILD_RESULT d) cache))"
    and "queue_of mon (oc_state (CompilerCache_handleMonitorMessage mon (BUILD_RESULT d) cache)) = rest"
    and "version_of mon (oc_state (CompilerCache_handleMonitorMessage mon (BUILD_RESULT d) cache)) =
           version_of mon cache"
    and "connected mon (oc_state (CompilerCache_handleMonitorMessage mon (BUILD_RESULT d) cache)) =
           connected mon cache"
    and "inbox_of mon (oc_state (CompilerCache_handleMonitorMessage mon (BUILD_RESULT d) cache)) =
           inbox_of mon cache @
           (if connected mon cache
            then map request_of (case rest of [] \<Rightarrow> [] | j # _ \<Rightarrow> [j])
            else [])"
proof -
  from assms(1,2) obtain sv where sv: "monitors cache mon = Some sv"
    and q: "sv_workQueue sv = Some (task # rest)"
    by (auto simp: started_up_def queue_of_def split: option.splits)
  let ?c1 = "cache\<lparr> monitors := (monitors cache)(mon \<mapsto> sv\<lparr> sv_workQueue := Some rest \<rparr>) \<rparr>"
  let ?ev = "PoolComplete (complete_of (version_of mon cache) task d)"
  let ?r2 = "(case rest of [] \<Rightarrow> finished ?c1 [] | j # _ \<Rightarrow> CompilerCache_handleQueueExecute j ?c1)"
  have e: "CompilerCache_handleMonitorMessage mon (BUILD_RESULT d) cache =
      ?r2\<lparr> oc_events := ?ev # oc_events ?r2 \<rparr>"
  proof (cases rest)
    case Nil
    then show ?thesis
      by (simp add: CompilerCache_handleMonitorMessage_def sv q JobQueue_front_def
          JobQueue_complete_def Let_def and_then_def finished_def complete_of_def version_of_def)
  next
    case (Cons j rest')
    have "dispatch_queue_events [Execute j] ?c1 = CompilerCache_handleQueueExecute j ?c1"
      by (rule dispatch_single)
    then show ?thesis
      unfolding CompilerCache_handleMonitorMessage_def
      by (simp add: sv q Cons JobQueue_front_def JobQueue_complete_def Let_def and_then_def
          finished_def complete_of_def version_of_def del: dispatch_queue_events.simps)
  qed
  have s1: "started_up mon ?c1" using assms(1) by (simp add: started_up_def sv)
  have q1: "queue_of mon ?c1 = rest" by (simp add: queue_of_def)
  have v1: "version_of mon ?c1 = version_of mon cache" by (simp add: version_of_def sv)
  have c1: "connected mon ?c1 = connected mon cache" by (simp add: connected_def sv)
  have i1: "inbox_of mon ?c1 = inbox_of mon cache" by (simp add: inbox_of_def sv)
  show "oc_error (CompilerCache_handleMonitorMessage mon (BUILD_RESULT d) cache) = None"
    unfolding e using assms(3) execute_step(1) [OF s1]
    by (cases rest) (simp_all add: finished_def)
  show "oc_events (CompilerCache_handleMonitorMessage mon (BUILD_RESULT d) cache) =
           ?ev # (case rest of [] \<Rightarrow> []
            | j # _ \<Rightarrow> [PoolStarted (job_input j) (job_targetPath j) (job_compilerName j)])"
    unfolding e using assms(3) execute_step(2) [OF s1]
    by (cases rest) (simp_all add: finished_def)
  show "started_up mon (oc_state (CompilerCache_handleMonitorMessage mon (BUILD_RESULT d) cache))"
    unfolding e using assms(3) execute_step(3) [OF s1] s1
    by (cases rest) (simp_all add: finished_def)
  show "queue_of mon (oc_state (CompilerCache_handleMonitorMessage mon (BUILD_RESULT d) cache)) = rest"
    unfolding e using assms(3) execute_step(4) [OF s1] q1
    by (cases rest) (simp_all add: finished_def)
  show "version_of mon (oc_state (CompilerCache_handleMonitorMessage mon (BUILD_RESULT d) cache)) =
           version_of mon cache"
    unfolding e using assms(3) execute_step(5) [OF s1] v1
    by (cases rest) (simp_all add: finished_def)
  show "connected mon (oc_state (CompilerCache_handleMonitorMessage mon (BUILD_RESULT d) cache)) =
           connected mon cache"
    unfolding e using assms(3) execute_step(6) [OF s1] c1
    by (cases rest) (simp_all add: finished_def)
  show "inbox_of mon (oc_state (CompilerCache_handleMonitorMessage mon (BUILD_RESULT d) cache)) =
           inbox_of mon cache @
           (if connected mon cache
            then map request_of (case rest of [] \<Rightarrow> [] | j # _ \<Rightarrow> [j])
            else [])"
    unfolding e using assms(3) execute_step(7) [OF s1] c1 i1
    by (cases rest) (simp_all add: finished_def)
qed


lemma and_then_ok:
  "oc_error r = None \<Longrightarrow>
     oc_error (and_then r f) = oc_error (f (oc_state r)) \<and>
     oc_state (and_then r f) = oc_state (f (oc_state r)) \<and>
     oc_events (and_then r f) = oc_events r @ oc_events (f (oc_state r))"
  by (simp add: and_then_def Let_def)

lemma begun_upto_head: "x # drop 1 (begun_upto n (x # ys)) = begun_upto n (x # ys)"
  by (cases n) (simp_all add: begun_upto_def)

lemma begun_upto_Suc: "begun_upto (Suc n) (x # ys) = x # begun_upto n ys"
  by (simp add: begun_upto_def)

lemma run_queue_general:
  assumes "started_up mon cache"
    and "\<forall>j\<in>set (queue_of mon cache). job_dataCompiler j = mon"
    and "answers_requests (length (queue_of mon cache)) ops"
  shows "oc_error (run_queue mon ops cache) = None \<and>
         completions (oc_events (run_queue mon ops cache)) =
           map2 (complete_of (version_of mon cache))
             (queue_of mon cache @ submitted mon ops) (results ops) \<and>
         queue_of mon (oc_state (run_queue mon ops cache)) =
           drop (length (results ops)) (queue_of mon cache @ submitted mon ops) \<and>
         started_jobs mon (oc_events (run_queue mon ops cache)) =
           drop (min 1 (length (queue_of mon cache)))
             (begun_upto (length (results ops)) (queue_of mon cache @ submitted mon ops)) \<and>
         inbox_of mon (oc_state (run_queue mon ops cache)) =
           inbox_of mon cache @
           (if connected mon cache
            then map request_of (started_jobs mon (oc_events (run_queue mon ops cache)))
            else [])"
  using assms
proof (induction ops arbitrary: cache)
  case Nil
  then show ?case
    by (cases "queue_of mon cache") (simp_all add: finished_def begun_upto_def)
next
  case (Cons op ops)
  show ?case
  proof (cases op)
    case (Submit cn tp input)
    let ?j = "\<lparr> job_input = input, job_targetPath = tp, job_compilerName = cn,
                job_dataCompiler = mon \<rparr>"
    let ?r1 = "CompilerCache_enqueue mon cn tp input cache"
    let ?q = "queue_of mon cache"
    let ?S = "?q @ submitted mon (op # ops)"
    let ?n = "length (results ops)"
    note st = enqueue_step [OF Cons.prems(1), of cn tp input]
    have q1: "queue_of mon (oc_state ?r1) = ?q @ [?j]" by (rule st(4))
    have p2: "\<forall>j\<in>set (queue_of mon (oc_state ?r1)). job_dataCompiler j = mon"
      using Cons.prems(2) q1 by simp
    have p3: "answers_requests (length (queue_of mon (oc_state ?r1))) ops"
      using Cons.prems(3) q1 by (simp add: Submit)
    have S: "queue_of mon (oc_state ?r1) @ submitted mon ops = ?S"
      using q1 by (simp add: Submit)
    have L: "length (queue_of mon (oc_state ?r1)) = Suc (length ?q)" using q1 by simp
    note ih = Cons.IH [OF st(3) p2 p3, unfolded S L st(5) st(6)]
    note at = and_then_ok [OF st(1), of "run_queue mon ops"]
    have R: "results (op # ops) = results ops" by (simp add: Submit)
    have run: "run_queue mon (op # ops) cache = and_then ?r1 (run_queue mon ops)"
      by (simp add: Submit)
    have c0: "completions (oc_events ?r1) = []" using st(2) by simp
    have s0: "started_jobs mon (oc_events ?r1) = (if ?q = [] then [?j] else [])"
      using st(2) by simp
    have ih_started: "started_jobs mon (oc_events (run_queue mon ops (oc_state ?r1))) =
        drop 1 (begun_upto ?n ?S)"
      using ih by simp
    have started: "started_jobs mon (oc_events (run_queue mon (op # ops) cache)) =
           drop (min 1 (length ?q)) (begun_upto (length (results (op # ops))) ?S)"
    proof (cases ?q)
      case Nil
      have xs: "?S = ?j # submitted mon ops" using Nil by (simp add: Submit)
      have "started_jobs mon (oc_events (run_queue mon (op # ops) cache)) =
          ?j # drop 1 (begun_upto ?n ?S)"
        unfolding run using at s0 ih_started Nil by (simp add: started_jobs_append)
      also have "\<dots> = begun_upto ?n ?S" unfolding xs by (rule begun_upto_head)
      finally show ?thesis unfolding R using Nil by simp
    next
      case (Cons a as)
      have "started_jobs mon (oc_events (run_queue mon (op # ops) cache)) =
          drop 1 (begun_upto ?n ?S)"
        unfolding run using at s0 ih_started Cons by (simp add: started_jobs_append)
      then show ?thesis unfolding R using Cons by simp
    qed
    have inbox: "inbox_of mon (oc_state (run_queue mon (op # ops) cache)) =
           inbox_of mon cache @
           (if connected mon cache
            then map request_of (started_jobs mon (oc_events (run_queue mon (op # ops) cache)))
            else [])"
      unfolding run using at ih st(7) by (simp add: started_jobs_append)
    have err: "oc_error (run_queue mon (op # ops) cache) = None"
      unfolding run using at ih by simp
    have comp: "completions (oc_events (run_queue mon (op # ops) cache)) =
           map2 (complete_of (version_of mon cache)) ?S (results (op # ops))"
      unfolding run R using at ih c0 by (simp add: completions_append)
    have queue: "queue_of mon (oc_state (run_queue mon (op # ops) cache)) =
           drop (length (results (op # ops))) ?S"
      unfolding run R using at ih by simp
    show ?thesis using err comp queue started inbox by blast
  next
    case (Result d)
    let ?r1 = "CompilerCache_handleMonitorMessage mon (BUILD_RESULT d) cache"
    let ?q = "queue_of mon cache"
    let ?S = "?q @ submitted mon (op # ops)"
    let ?n = "length (results ops)"
    from Cons.prems(3) Result obtain task rest where q: "?q = task # rest"
      by (cases ?q) simp_all
    have dc: "\<forall>j\<in>set rest. job_dataCompiler j = mon" using Cons.prems(2) q by simp
    note st = result_step [OF Cons.prems(1) q dc, of d]
    have q1: "queue_of mon (oc_state ?r1) = rest" by (rule st(4))
    have p2: "\<forall>j\<in>set (queue_of mon (oc_state ?r1)). job_dataCompiler j = mon"
      using dc q1 by simp
    have p3: "answers_requests (length (queue_of mon (oc_state ?r1))) ops"
      using Cons.prems(3) q1 q by (simp add: Result)
    have S1: "queue_of mon (oc_state ?r1) @ submitted mon ops = rest @ submitted mon ops"
      using q1 by simp
    note ih = Cons.IH [OF st(3) p2 p3, unfolded S1 q1 st(5) st(6)]
    note at = and_then_ok [OF st(1), of "run_queue mon ops"]
    have run: "run_queue mon (op # ops) cache = and_then ?r1 (run_queue mon ops)"
      by (simp add: Result)
    have R: "results (op # ops) = d # results ops" by (simp add: Result)
    let ?S1 = "rest @ submitted mon ops"
    have S: "?S = task # ?S1" using q by (simp add: Result)
    have c0: "completions (oc_events ?r1) = [complete_of (version_of mon cache) task d]"
      using st(2) by (cases rest) simp_all
    have s0: "started_jobs mon (oc_events ?r1) = (case rest of [] \<Rightarrow> [] | j # _ \<Rightarrow> [j])"
      using st(2) dc by (cases rest) simp_all
    have ih_started: "started_jobs mon (oc_events (run_queue mon ops (oc_state ?r1))) =
        drop (min 1 (length rest)) (begun_upto ?n ?S1)"
      using ih by simp
    have "started_jobs mon (oc_events (run_queue mon (op # ops) cache)) = begun_upto ?n ?S1"
    proof (cases rest)
      case Nil
      show ?thesis
        unfolding run using at s0 ih_started Nil by (simp add: started_jobs_append)
    next
      case (Cons a as)
      have xs: "?S1 = a # (as @ submitted mon ops)" using Cons by simp
      have "started_jobs mon (oc_events (run_queue mon (op # ops) cache)) =
          a # drop 1 (begun_upto ?n ?S1)"
        unfolding run using at s0 ih_started Cons by (simp add: started_jobs_append)
      also have "\<dots> = begun_upto ?n ?S1" unfolding xs by (rule begun_upto_head)
      finally show ?thesis .
    qed
    then have started: "started_jobs mon (oc_events (run_queue mon (op # ops) cache)) =
           drop (min 1 (length ?q)) (begun_upto (length (results (op # ops))) ?S)"
      unfolding R S using q by (simp add: begun_upto_Suc)
    have inbox: "inbox_of mon (oc_state (run_queue mon (op # ops) cache)) =
           inbox_of mon cache @
           (if connected mon cache
            then map request_of (started_jobs mon (oc_events (run_queue mon (op # ops) cache)))
            else [])"
      unfolding run using at ih st(7) s0 by (simp add: started_jobs_append)
    have err: "oc_error (run_queue mon (op # ops) cache) = None"
      unfolding run using at ih by simp
    have comp: "completions (oc_events (run_queue mon (op # ops) cache)) =
           map2 (complete_of (version_of mon cache)) ?S (results (op # ops))"
      unfolding run R S using at ih c0 by (simp add: completions_append)
    have queue: "queue_of mon (oc_state (run_queue mon (op # ops) cache)) =
           drop (length (results (op # ops))) ?S"
      unfolding run R S using at ih by simp
    show ?thesis using err comp queue started inbox by blast
  qed
qed


lemma results_bounded:
  "answers_requests pending ops \<Longrightarrow> length (results ops) \<le> pending + length (submitted mon ops)"
  by (induction pending ops rule: answers_requests.induct) auto

text \<open>
  C2. Take one supervisor that the pool has started, its queue idle, and any
  sequence of submissions and worker results in which no result arrives without
  a job waiting for it. Then the run ends without an exception, and:
  every \<open>BUILD_RESULT\<close> yields exactly one \<open>complete\<close> event, and the \<open>complete\<close>
  events, in order, pair the submitted jobs in submission order with the results
  in arrival order, each carrying the job's input and compiler name, the
  supervisor's version and the result's target path, success flag, errors,
  outputs and references: a result is attributed to the job at the head of the
  queue and the \<open>complete\<close> of an earlier submission precedes that of a later
  one; the queue that remains is the submissions not yet completed; the jobs
  begun (\<open>started\<close> events), in order, are the completed jobs and the job now at
  the head of the queue, so a job submitted to an empty queue is begun at once
  and completing a job pops it and begins the next; and for every job begun a
  \<open>BUILD_REQUEST\<close> with its source path, target path and platform has been
  appended to the worker's inbox, in the same order (none when the channel is
  not connected, where \<open>send\<close> does nothing).
\<close>

theorem supervisor_queue_fifo:
  assumes "started_up mon cache"
    and "queue_of mon cache = []"
    and "answers_requests 0 ops"
  shows "oc_error (run_queue mon ops cache) = None \<and>
         completions (oc_events (run_queue mon ops cache)) =
           map2 (complete_of (version_of mon cache)) (submitted mon ops) (results ops) \<and>
         length (completions (oc_events (run_queue mon ops cache))) = length (results ops) \<and>
         queue_of mon (oc_state (run_queue mon ops cache)) =
           drop (length (results ops)) (submitted mon ops) \<and>
         started_jobs mon (oc_events (run_queue mon ops cache)) =
           begun_upto (length (results ops)) (submitted mon ops) \<and>
         inbox_of mon (oc_state (run_queue mon ops cache)) =
           inbox_of mon cache @
           (if connected mon cache
            then map request_of (begun_upto (length (results ops)) (submitted mon ops))
            else [])"
proof -
  have a: "\<forall>j\<in>set (queue_of mon cache). job_dataCompiler j = mon"
    using assms(2) by simp
  have b: "answers_requests (length (queue_of mon cache)) ops"
    using assms(2,3) by simp
  note g = run_queue_general [OF assms(1) a b, unfolded assms(2)]
  have le: "length (results ops) \<le> length (submitted mon ops)"
    using results_bounded [OF assms(3), of mon] by simp
  have len: "length (completions (oc_events (run_queue mon ops cache))) = length (results ops)"
    using g le by simp
  show ?thesis using g len by simp
qed

theorem supervisor_queue_fifo_witness:
  "started_up 0 example_cache \<and> queue_of 0 example_cache = [] \<and> answers_requests 0 example_ops \<and>
   oc_error (run_queue 0 example_ops example_cache) = None \<and>
   completions (oc_events (run_queue 0 example_ops example_cache)) =
     [complete_of (Some 1) (example_job ''a'') (example_result True),
      complete_of (Some 1) (example_job ''b'') (example_result False)] \<and>
   queue_of 0 (oc_state (run_queue 0 example_ops example_cache)) = [] \<and>
   started_jobs 0 (oc_events (run_queue 0 example_ops example_cache)) =
     [example_job ''a'', example_job ''b''] \<and>
   inbox_of 0 (oc_state (run_queue 0 example_ops example_cache)) =
     [request_of (example_job ''a''), request_of (example_job ''b'')]"
proof -
  have h1: "started_up 0 example_cache"
    by (simp add: queue_defs example_cache_def example_monitor_def example_config_def)
  have h2: "queue_of 0 example_cache = []"
    by (simp add: queue_defs example_cache_def)
  have h3: "answers_requests 0 example_ops"
    by (simp add: example_ops_def)
  have v: "version_of 0 example_cache = Some 1"
    by (simp add: version_of_def example_cache_def)
  have c: "connected 0 example_cache"
    by (simp add: queue_defs example_cache_def example_monitor_def example_config_def)
  have i: "inbox_of 0 example_cache = []"
    by (simp add: queue_defs example_cache_def example_monitor_def example_config_def)
  have s: "submitted 0 example_ops = [example_job ''a'', example_job ''b'']"
    by (simp add: example_ops_def example_job_def)
  have r: "results example_ops = [example_result True, example_result False]"
    by (simp add: example_ops_def)
  show ?thesis
    using supervisor_queue_fifo [OF h1 h2 h3] h1 h2 h3
    by (simp add: v c i s r begun_upto_def)
qed

end
